theory Spec2Isabelle
  imports Complex_Main "HOL-Library.Sublist"
begin

section \<open>JavaScript values\<close>

text \<open>
  The three services (\<open>NewsService\<close>, \<open>MarketDataService\<close>, \<open>AIFinancialService\<close>) are
  embedded function by function. Conventions of the embedding:
  \<^item> text is a \<open>string\<close> of 8-bit characters, the code points up to U+00FF; case mapping
    acts on the letters A to Z, which is all that a comparison with the ASCII keywords and
    patterns of the source can observe; \<open>\s\<close> is the white space among these characters
    (U+00A0 included) and \<open>\d\<close> the ten digits;
  \<^item> a JavaScript number is an exact real (\<open>Num\<close>), or \<open>NaN\<close>, or an infinity; the rounding
    of IEEE doubles is not part of the model, and a text whose digits depend on it is kept
    as the expression that produces it;
  \<^item> a reading of the clock (\<open>Date.now()\<close>, \<open>new Date()\<close>, its ISO text) is its number of
    milliseconds, an \<open>int\<close>; a \<open>Date\<close> made from other data is an \<open>int option\<close>, where
    \<open>None\<close> is the Invalid Date, whose time value is NaN;
  \<^item> a property that may be \<open>undefined\<close> is an \<open>option\<close>;
  \<^item> an exception, or a rejected promise, is the \<open>Inl\<close> of a sum;
  \<^item> every \<open>Math.random()\<close> and every reading of the clock is an input, named after the
    place of the source that makes it.
\<close>

datatype js_error = Error string | TypeError string | Rejected string

datatype jsnum = NaN | Num real | PosInfinity | NegInfinity

datatype 'a http = Transport_failure string | Body 'a

text \<open>\<open>a > c\<close> and \<open>a < c\<close> for a finite constant \<open>c\<close>; every comparison with NaN is false.\<close>

fun js_gt :: "jsnum \<Rightarrow> real \<Rightarrow> bool" where
  "js_gt (Num x) c = (x > c)"
| "js_gt PosInfinity c = True"
| "js_gt NegInfinity c = False"
| "js_gt NaN c = False"

fun js_lt :: "jsnum \<Rightarrow> real \<Rightarrow> bool" where
  "js_lt (Num x) c = (x < c)"
| "js_lt PosInfinity c = False"
| "js_lt NegInfinity c = True"
| "js_lt NaN c = False"

text \<open>Truthiness of a string-valued property: \<open>undefined\<close> and the empty string are falsy.\<close>

fun truthy :: "string option \<Rightarrow> bool" where
  "truthy None = False"
| "truthy (Some s) = (s \<noteq> [])"

definition upperAZ :: string where
  "upperAZ = ''ABCDEFGHIJKLMNOPQRSTUVWXYZ''"

definition lowerAZ :: string where
  "lowerAZ = ''abcdefghijklmnopqrstuvwxyz''"

definition toLowerChar :: "char \<Rightarrow> char" where
  "toLowerChar c = (case map_of (zip upperAZ lowerAZ) c of None \<Rightarrow> c | Some d \<Rightarrow> d)"

definition toUpperChar :: "char \<Rightarrow> char" where
  "toUpperChar c = (case map_of (zip lowerAZ upperAZ) c of None \<Rightarrow> c | Some d \<Rightarrow> d)"

definition toLowerCase :: "string \<Rightarrow> string" where
  "toLowerCase s = map toLowerChar s"

definition toUpperCase :: "string \<Rightarrow> string" where
  "toUpperCase s = map toUpperChar s"

text \<open>\<open>hay.includes(w)\<close>: \<open>w\<close> occurs in \<open>hay\<close> at some position.\<close>

fun str_includes :: "string \<Rightarrow> string \<Rightarrow> bool" where
  "str_includes [] w = (w = [])"
| "str_includes (c # cs) w = (prefix w (c # cs) \<or> str_includes cs w)"

text \<open>
  \<open>s.replace(pat, rep)\<close> with a string pattern replaces the first occurrence only. The
  replacements of the source contain no \<open>$\<close>, so none of them is a replacement pattern.
\<close>

fun str_replace :: "string \<Rightarrow> string \<Rightarrow> string \<Rightarrow> string" where
  "str_replace pat rep [] = (if pat = [] then rep else [])"
| "str_replace pat rep (c # cs) =
     (if prefix pat (c # cs) then rep @ drop (length pat) (c # cs)
      else c # str_replace pat rep cs)"

definition isDigit :: "char \<Rightarrow> bool" where
  "isDigit c = (c \<in> set ''0123456789'')"

definition isSpace :: "char \<Rightarrow> bool" where
  "isSpace c =
     (c \<in> set [CHR '' '', CHR 0x09, CHR 0x0A, CHR 0x0B, CHR 0x0C, CHR 0x0D, CHR 0xA0])"

definition digitVal :: "char \<Rightarrow> nat" where
  "digitVal c = of_char c - 48"

definition digitsVal :: "string \<Rightarrow> nat" where
  "digitsVal ds = foldl (\<lambda>acc c. 10 * acc + digitVal c) 0 ds"

fun show_nat :: "nat \<Rightarrow> string" where
  "show_nat n =
     (if n < 10 then [''0123456789'' ! n]
      else show_nat (n div 10) @ [''0123456789'' ! (n mod 10)])"

declare show_nat.simps [simp del]

text \<open>\<open>Math.floor\<close> and \<open>Math.round\<close> (a tie rounds up) of a finite number.\<close>

definition math_floor :: "real \<Rightarrow> int" where
  "math_floor x = \<lfloor>x\<rfloor>"

definition math_round :: "real \<Rightarrow> int" where
  "math_round x = \<lfloor>x + 1 / 2\<rfloor>"

text \<open>
  \<open>x.toFixed(d)\<close>: the decimal with \<open>d\<close> fraction digits nearest to \<open>x\<close>, the larger one at a
  tie, printed positionally with the sign of \<open>x\<close>. JavaScript prints positionally for
  \<open>\<bar>x\<bar> < 10^21\<close>, which is the range of this definition.
\<close>

definition toFixed :: "nat \<Rightarrow> real \<Rightarrow> string" where
  "toFixed d x =
     (let n = nat \<lfloor>\<bar>x\<bar> * 10 ^ d + 1 / 2\<rfloor>;
          ds = show_nat n;
          padded = replicate (Suc d - length ds) (CHR ''0'') @ ds;
          ip = take (length padded - d) padded;
          fp = drop (length padded - d) padded
      in (if x < 0 then ''-'' else []) @ ip @ (if d = 0 then [] else ''.'' @ fp))"

text \<open>
  \<open>parseFloat\<close>: leading white space, a sign, then \<open>Infinity\<close> or the longest decimal literal
  (digits, a fraction, an exponent that has at least one digit); NaN when there is none.
\<close>

definition parse_exponent :: "string \<Rightarrow> int" where
  "parse_exponent r =
     (case r of
        [] \<Rightarrow> 0
      | e # r1 \<Rightarrow>
          if e = CHR ''e'' \<or> e = CHR ''E'' then
            (case r1 of
               [] \<Rightarrow> 0
             | s # r2 \<Rightarrow>
                 if s = CHR ''-'' then
                   (if takeWhile isDigit r2 = [] then 0 else - int (digitsVal (takeWhile isDigit r2)))
                 else if s = CHR ''+'' then int (digitsVal (takeWhile isDigit r2))
                 else int (digitsVal (takeWhile isDigit r1)))
          else 0)"

definition parse_unsigned :: "string \<Rightarrow> jsnum" where
  "parse_unsigned s =
     (if prefix ''Infinity'' s then PosInfinity
      else
        let ip = takeWhile isDigit s;
            r = dropWhile isDigit s;
            fp = (case r of [] \<Rightarrow> [] | c # r1 \<Rightarrow> if c = CHR ''.'' then takeWhile isDigit r1 else []);
            r2 = (case r of [] \<Rightarrow> [] | c # r1 \<Rightarrow> if c = CHR ''.'' then dropWhile isDigit r1 else r)
        in if ip = [] \<and> fp = [] then NaN
           else Num ((real (digitsVal ip) + real (digitsVal fp) / 10 ^ length fp)
                     * 10 powi parse_exponent r2))"

text \<open>
  Arithmetic with finite constants on a number that may be no finite number: the result
  is used only where NaN and an infinity have the same effect.
\<close>

fun js_apply :: "(real \<Rightarrow> real) \<Rightarrow> jsnum \<Rightarrow> jsnum" where
  "js_apply f (Num x) = Num (f x)"
| "js_apply f n = NaN"

fun js_neg :: "jsnum \<Rightarrow> jsnum" where
  "js_neg NaN = NaN"
| "js_neg (Num x) = Num (- x)"
| "js_neg PosInfinity = NegInfinity"
| "js_neg NegInfinity = PosInfinity"

definition parseFloat :: "string \<Rightarrow> jsnum" where
  "parseFloat s =
     (case dropWhile isSpace s of
        [] \<Rightarrow> NaN
      | c # cs \<Rightarrow>
          if c = CHR ''-'' then js_neg (parse_unsigned cs)
          else if c = CHR ''+'' then parse_unsigned cs
          else parse_unsigned (c # cs))"

text \<open>\<open>parseFloat(undefined)\<close> reads the text \<open>undefined\<close>, which is no number.\<close>

fun parseFloat_prop :: "string option \<Rightarrow> jsnum" where
  "parseFloat_prop None = NaN"
| "parseFloat_prop (Some s) = parseFloat s"

text \<open>
  \<open>parseInt\<close> without a radix: white space, a sign, base 16 after \<open>0x\<close>, else the longest
  run of decimal digits.
\<close>

definition hexVal :: "char \<Rightarrow> nat option" where
  "hexVal c = map_of (zip ''0123456789abcdefABCDEF''
                 [0, 1, 2, 3, 4, 5, 6, 7, 8, 9, 10, 11, 12, 13, 14, 15, 10, 11, 12, 13, 14, 15]) c"

definition parseInt_unsigned :: "string \<Rightarrow> jsnum" where
  "parseInt_unsigned s =
     (if prefix ''0x'' s \<or> prefix ''0X'' s then
        (let hs = takeWhile (\<lambda>c. hexVal c \<noteq> None) (drop 2 s)
         in if hs = [] then NaN
            else Num (real (foldl (\<lambda>acc c. 16 * acc + the (hexVal c)) 0 hs)))
      else
        (let ds = takeWhile isDigit s
         in if ds = [] then NaN else Num (real (digitsVal ds))))"

definition parseInt :: "string \<Rightarrow> jsnum" where
  "parseInt s =
     (case dropWhile isSpace s of
        [] \<Rightarrow> NaN
      | c # cs \<Rightarrow>
          if c = CHR ''-'' then js_neg (parseInt_unsigned cs)
          else if c = CHR ''+'' then parseInt_unsigned cs
          else parseInt_unsigned (c # cs))"

fun parseInt_prop :: "string option \<Rightarrow> jsnum" where
  "parseInt_prop None = NaN"
| "parseInt_prop (Some s) = parseInt s"

definition show_int :: "int \<Rightarrow> string" where
  "show_int i = (if i < 0 then ''-'' @ show_nat (nat (- i)) else show_nat (nat i))"

section \<open>NewsService\<close>

datatype alert_type = Bullish | Bearish | Neutral

datatype alert_id = Id_text string | Id_number int

record alert =
  a_id :: alert_id
  a_title :: string
  a_type :: alert_type
  a_timestamp :: "int option"
  a_source :: string
  a_isLive :: bool
  a_minutesAgo :: "int option"

record alerts_cache_entry =
  ace_data :: "alert list"
  ace_timestamp :: int

record process_env =
  REACT_APP_ALPHA_VANTAGE_KEY :: "string option"
  REACT_APP_FINNHUB_KEY :: "string option"
  REACT_APP_NEWS_API_KEY :: "string option"
  REACT_APP_POLYGON_KEY :: "string option"

record NewsService =
  ns_alphaVantageKey :: "string option"
  ns_finnhubKey :: "string option"
  ns_newsApiKey :: "string option"
  ns_cache :: "string \<rightharpoonup> alerts_cache_entry"
  ns_cacheTimeout :: int

definition NewsService_new :: "process_env \<Rightarrow> NewsService" where
  "NewsService_new env =
     \<lparr> ns_alphaVantageKey = REACT_APP_ALPHA_VANTAGE_KEY env,
       ns_finnhubKey = REACT_APP_FINNHUB_KEY env,
       ns_newsApiKey = REACT_APP_NEWS_API_KEY env,
       ns_cache = Map.empty,
       ns_cacheTimeout = 300000 \<rparr>"

text \<open>
  \<open>new Date(x)\<close> for a number \<open>x\<close>: the time value is \<open>x\<close> without its fraction when
  \<open>x\<close> is finite and at most 8.64e15 in absolute value, and NaN otherwise.
\<close>

definition time_clip :: "real \<Rightarrow> int option" where
  "time_clip t =
     (if \<bar>t\<bar> \<le> 8640000000000000 then Some (if t < 0 then \<lceil>t\<rceil> else \<lfloor>t\<rfloor>) else None)"

fun date_of_number :: "jsnum \<Rightarrow> int option" where
  "date_of_number (Num x) = time_clip x"
| "date_of_number n = None"

text \<open>
  The decoded bodies of the two news providers. \<open>time_published\<close> is a text, and the field
  holds what \<open>new Date\<close> reads from it: an instant, or \<open>None\<close> when the text is no date
  that JavaScript accepts (as the compact form \<open>20240410T013000\<close>). \<open>datetime\<close> is a number
  of seconds, NaN when it is missing. A headline may be missing, and then
  \<open>headline.substring\<close> raises.
\<close>

record av_ticker =
  ticker :: string
  ticker_sentiment_score :: "string option"

record av_article =
  url :: string
  title :: "string option"
  ticker_sentiment :: "av_ticker list option"
  overall_sentiment_score :: jsnum
  time_published :: "int option"

record av_news =
  feed :: "av_article list option"

record fh_article =
  fh_id :: int
  headline :: "string option"
  datetime :: jsnum

fun try_map :: "('a \<Rightarrow> js_error + 'b) \<Rightarrow> 'a list \<Rightarrow> js_error + 'b list" where
  "try_map f [] = Inr []"
| "try_map f (x # xs) =
     (case f x of
        Inl e \<Rightarrow> Inl e
      | Inr y \<Rightarrow> (case try_map f xs of Inl e \<Rightarrow> Inl e | Inr ys \<Rightarrow> Inr (y # ys)))"

definition createAlertFromNews :: "string option \<Rightarrow> av_ticker list option \<Rightarrow> js_error + string" where
  "createAlertFromNews hl tickerSentiment =
     (case hl of
        None \<Rightarrow> Inl (TypeError ''Cannot read properties of undefined (reading 'substring')'')
      | Some h \<Rightarrow>
          let t = take 80 h in
          (case tickerSentiment of
             None \<Rightarrow> Inr t
           | Some [] \<Rightarrow> Inr t
           | Some (mainTicker # _) \<Rightarrow>
               let sentiment = parseFloat_prop (ticker_sentiment_score mainTicker) in
               if js_gt sentiment (2 / 10) then
                 Inr (ticker mainTicker @ '' showing bullish momentum - '' @ t)
               else if js_lt sentiment (- (2 / 10)) then
                 Inr (ticker mainTicker @ '' facing bearish pressure - '' @ t)
               else Inr t))"

definition determineAlertType :: "jsnum \<Rightarrow> alert_type" where
  "determineAlertType sentimentScore =
     (if js_gt sentimentScore (2 / 10) then Bullish
      else if js_lt sentimentScore (- (2 / 10)) then Bearish
      else Neutral)"

definition bullishKeywords :: "string list" where
  "bullishKeywords =
     [''beat'', ''surge'', ''rally'', ''jump'', ''gain'', ''bullish'', ''up'', ''rise'']"

definition bearishKeywords :: "string list" where
  "bearishKeywords =
     [''fall'', ''drop'', ''decline'', ''bear'', ''down'', ''plunge'', ''crash'']"

definition determineAlertTypeFromHeadline :: "string \<Rightarrow> alert_type" where
  "determineAlertTypeFromHeadline h =
     (let lowerHeadline = toLowerCase h in
      if list_ex (\<lambda>word. str_includes lowerHeadline word) bullishKeywords then Bullish
      else if list_ex (\<lambda>word. str_includes lowerHeadline word) bearishKeywords then Bearish
      else Neutral)"

definition av_alert :: "av_article \<Rightarrow> js_error + alert" where
  "av_alert article =
     (case createAlertFromNews (title article) (ticker_sentiment article) of
        Inl e \<Rightarrow> Inl e
      | Inr t \<Rightarrow>
          Inr \<lparr> a_id = Id_text (url article),
                a_title = t,
                a_type = determineAlertType (overall_sentiment_score article),
                a_timestamp = time_published article,
                a_source = ''Alpha Vantage'',
                a_isLive = True,
                a_minutesAgo = None \<rparr>)"

definition fh_alert :: "fh_article \<Rightarrow> js_error + alert" where
  "fh_alert article =
     (case createAlertFromNews (headline article) None of
        Inl e \<Rightarrow> Inl e
      | Inr t \<Rightarrow>
          (case headline article of
             None \<Rightarrow> Inl (TypeError ''Cannot read properties of undefined (reading 'toLowerCase')'')
           | Some h \<Rightarrow>
               Inr \<lparr> a_id = Id_number (fh_id article),
                     a_title = t,
                     a_type = determineAlertTypeFromHeadline h,
                     a_timestamp = date_of_number (js_apply (\<lambda>s. s * 1000) (datetime article)),
                     a_source = ''Finnhub'',
                     a_isLive = True,
                     a_minutesAgo = None \<rparr>))"

text \<open>
  The body of each \<open>try\<close>, and the function with its \<open>catch\<close>, which turns every failure into
  the empty list. A body that is not the expected JSON (\<open>null\<close>, no array) is \<open>None\<close>.
\<close>

definition fetchAlphaVantageNews_try :: "av_news option http \<Rightarrow> js_error + alert list" where
  "fetchAlphaVantageNews_try response =
     (case response of
        Transport_failure m \<Rightarrow> Inl (Rejected m)
      | Body None \<Rightarrow> Inl (TypeError ''Cannot read properties of null (reading 'feed')'')
      | Body (Some data) \<Rightarrow>
          (case feed data of
             None \<Rightarrow> Inr []
           | Some articles \<Rightarrow> try_map av_alert (take 5 articles)))"

definition fetchAlphaVantageNews :: "av_news option http \<Rightarrow> js_error + alert list" where
  "fetchAlphaVantageNews response =
     (case fetchAlphaVantageNews_try response of Inl e \<Rightarrow> Inr [] | Inr alerts \<Rightarrow> Inr alerts)"

definition fetchFinnhubNews_try :: "fh_article list option http \<Rightarrow> js_error + alert list" where
  "fetchFinnhubNews_try response =
     (case response of
        Transport_failure m \<Rightarrow> Inl (Rejected m)
      | Body None \<Rightarrow> Inl (TypeError ''data.slice is not a function'')
      | Body (Some data) \<Rightarrow> try_map fh_alert (take 5 data))"

definition fetchFinnhubNews :: "fh_article list option http \<Rightarrow> js_error + alert list" where
  "fetchFinnhubNews response =
     (case fetchFinnhubNews_try response of Inl e \<Rightarrow> Inr [] | Inr alerts \<Rightarrow> Inr alerts)"

text \<open>The inputs of one run of the simulated-alert generator.\<close>

record alert_draws =
  currentTime :: int
  r_minutesAgo :: "nat \<Rightarrow> real"
  r_symbol :: "nat \<Rightarrow> real"
  r_percent :: "nat \<Rightarrow> real"
  r_amount :: "nat \<Rightarrow> real"
  r_price :: "nat \<Rightarrow> real"
  id_now :: "nat \<Rightarrow> int"

record alert_template =
  template :: string
  t_type :: alert_type
  t_minutesAgo :: int

definition alert_symbols :: "string list" where
  "alert_symbols = [''AAPL'', ''MSFT'', ''NVDA'', ''GOOGL'', ''META'', ''TSLA'', ''AMZN'']"

definition alertTemplates :: "alert_draws \<Rightarrow> alert_template list" where
  "alertTemplates d =
     [ \<lparr> template = ''{symbol} showing bullish momentum after earnings beat'',
         t_type = Bullish, t_minutesAgo = math_floor (r_minutesAgo d 0 * 30) \<rparr>,
       \<lparr> template = ''Fed minutes suggest higher rates for longer'',
         t_type = Bearish, t_minutesAgo = math_floor (r_minutesAgo d 1 * 60) \<rparr>,
       \<lparr> template = ''{symbol} filed 10-Q report - Revenue up {percent}% YoY'',
         t_type = Neutral, t_minutesAgo = math_floor (r_minutesAgo d 2 * 120) \<rparr>,
       \<lparr> template = ''Tech sector rallies on AI breakthrough announcement'',
         t_type = Bullish, t_minutesAgo = math_floor (r_minutesAgo d 3 * 45) \<rparr>,
       \<lparr> template = ''{symbol} announces stock buyback program worth $'' @ ''{amount}B'',
         t_type = Bullish, t_minutesAgo = math_floor (r_minutesAgo d 4 * 90) \<rparr>,
       \<lparr> template = ''Market volatility increases amid geopolitical tensions'',
         t_type = Bearish, t_minutesAgo = math_floor (r_minutesAgo d 5 * 180) \<rparr>,
       \<lparr> template = ''{symbol} upgrades price target to $'' @ ''{price}'',
         t_type = Bullish, t_minutesAgo = math_floor (r_minutesAgo d 6 * 60) \<rparr>,
       \<lparr> template = ''Crypto market surge lifts blockchain-related stocks'',
         t_type = Bullish, t_minutesAgo = math_floor (r_minutesAgo d 7 * 30) \<rparr> ]"

definition simulated_alert :: "alert_draws \<Rightarrow> nat \<Rightarrow> alert_template \<Rightarrow> alert" where
  "simulated_alert d index t =
     (let k = math_floor (r_symbol d index * real (length alert_symbols));
          symbol = (if 0 \<le> k \<and> nat k < length alert_symbols then alert_symbols ! nat k
                    else ''undefined'');
          percent = math_floor (r_percent d index * 20) + 5;
          amount = toFixed 1 (r_amount d index * 50 + 10);
          price = toFixed 0 (150 + r_price d index * 200);
          t1 = str_replace ''{symbol}'' symbol (template t);
          t2 = str_replace ''{percent}'' (show_int percent) t1;
          t3 = str_replace ''{amount}'' amount t2;
          t4 = str_replace ''{price}'' price t3;
          alertTime = currentTime d - t_minutesAgo t * 60000
      in \<lparr> a_id = Id_text (''alert_'' @ show_nat index @ ''_'' @ show_int (id_now d index)),
           a_title = t4,
           a_type = t_type t,
           a_timestamp = Some alertTime,
           a_source = ''Market Simulation'',
           a_isLive = False,
           a_minutesAgo = Some (t_minutesAgo t) \<rparr>)"

definition generateRealisticMarketAlerts :: "alert_draws \<Rightarrow> alert list" where
  "generateRealisticMarketAlerts d =
     map (\<lambda>(index, t). simulated_alert d index t) (enumerate 0 (take 6 (alertTemplates d)))"

text \<open>
  What one call of \<open>getMarketAlerts\<close> reads from outside: the clock at the cache check and at
  the cache write, what each provider answers, and the generator's inputs.
\<close>

record alerts_world =
  now_check :: int
  avNews :: "av_news option http"
  finnhubNews :: "fh_article list option http"
  draws :: alert_draws
  now_set :: int

text \<open>
  \<open>alerts.sort((a, b) => new Date(b.timestamp) - new Date(a.timestamp))\<close>. The comparator
  is the difference of the two time values, NaN (\<open>None\<close>) when either date is invalid, and
  the sort reads NaN as 0. The sort of JavaScript is stable; it is written here as the
  insertion of each element, from the last to the first, before the first element that it
  does not follow. Where the comparator is NaN for some pair, JavaScript leaves the order
  to the engine, and this is one such order.
\<close>

definition compare_by_time :: "alert \<Rightarrow> alert \<Rightarrow> int option" where
  "compare_by_time a b =
     (case a_timestamp a of
        None \<Rightarrow> None
      | Some ta \<Rightarrow> (case a_timestamp b of None \<Rightarrow> None | Some tb \<Rightarrow> Some (tb - ta)))"

definition sort_compare :: "('a \<Rightarrow> 'a \<Rightarrow> int option) \<Rightarrow> 'a \<Rightarrow> 'a \<Rightarrow> int" where
  "sort_compare comparefn x y = (case comparefn x y of None \<Rightarrow> 0 | Some v \<Rightarrow> v)"

fun insert_sorted :: "('a \<Rightarrow> 'a \<Rightarrow> int option) \<Rightarrow> 'a \<Rightarrow> 'a list \<Rightarrow> 'a list" where
  "insert_sorted comparefn x [] = [x]"
| "insert_sorted comparefn x (y # ys) =
     (if sort_compare comparefn x y \<le> 0 then x # y # ys
      else y # insert_sorted comparefn x ys)"

definition array_sort :: "('a \<Rightarrow> 'a \<Rightarrow> int option) \<Rightarrow> 'a list \<Rightarrow> 'a list" where
  "array_sort comparefn xs = foldr (insert_sorted comparefn) xs []"

definition sort_by_time :: "alert list \<Rightarrow> alert list" where
  "sort_by_time alerts = array_sort compare_by_time alerts"

definition getMarketAlerts_try :: "NewsService \<Rightarrow> alerts_world \<Rightarrow> js_error + alert list \<times> NewsService" where
  "getMarketAlerts_try svc w =
     (case (if truthy (ns_alphaVantageKey svc) then fetchAlphaVantageNews (avNews w) else Inr []) of
        Inl e \<Rightarrow> Inl e
      | Inr av \<Rightarrow>
          (case (if truthy (ns_finnhubKey svc) then fetchFinnhubNews (finnhubNews w) else Inr []) of
             Inl e \<Rightarrow> Inl e
           | Inr fh \<Rightarrow>
               let alerts0 = ([] @ av) @ fh;
                   alerts1 = (if length alerts0 = 0 then generateRealisticMarketAlerts (draws w)
                              else alerts0);
                   alerts = take 10 (sort_by_time alerts1)
               in Inr (alerts,
                       svc\<lparr> ns_cache := (ns_cache svc)(''market_alerts'' \<mapsto>
                              \<lparr> ace_data = alerts, ace_timestamp = now_set w \<rparr>) \<rparr>)))"

definition getMarketAlerts_miss :: "NewsService \<Rightarrow> alerts_world \<Rightarrow> alert list \<times> NewsService" where
  "getMarketAlerts_miss svc w =
     (case getMarketAlerts_try svc w of
        Inr r \<Rightarrow> r
      | Inl e \<Rightarrow> (generateRealisticMarketAlerts (draws w), svc))"

definition cached_alerts :: "NewsService \<Rightarrow> int \<Rightarrow> string \<Rightarrow> alert list option" where
  "cached_alerts svc now cacheKey =
     (case ns_cache svc cacheKey of
        None \<Rightarrow> None
      | Some cached \<Rightarrow>
          if now - ace_timestamp cached < ns_cacheTimeout svc then Some (ace_data cached)
          else None)"

definition getMarketAlerts :: "NewsService \<Rightarrow> alerts_world \<Rightarrow> alert list \<times> NewsService" where
  "getMarketAlerts svc w =
     (case cached_alerts svc (now_check w) ''market_alerts'' of
        Some data \<Rightarrow> (data, svc)
      | None \<Rightarrow> getMarketAlerts_miss svc w)"

text \<open>The states of a \<open>NewsService\<close>: as constructed, and after any call.\<close>

inductive news_reachable :: "process_env \<Rightarrow> NewsService \<Rightarrow> bool" for env :: process_env where
  news_init: "news_reachable env (NewsService_new env)"
| news_step: "news_reachable env svc \<Longrightarrow> news_reachable env (snd (getMarketAlerts svc w))"

text \<open>
  The alerts that the configured providers contribute to one call, and the calls in which
  each of them carries a valid date.
\<close>

definition fetched :: "js_error + alert list \<Rightarrow> alert list" where
  "fetched r = (case r of Inl e \<Rightarrow> [] | Inr alerts \<Rightarrow> alerts)"

definition live_union :: "NewsService \<Rightarrow> alerts_world \<Rightarrow> alert list" where
  "live_union svc w =
     (if truthy (ns_alphaVantageKey svc) then fetched (fetchAlphaVantageNews (avNews w)) else [])
     @ (if truthy (ns_finnhubKey svc) then fetched (fetchFinnhubNews (finnhubNews w)) else [])"



section \<open>MarketDataService\<close>

text \<open>
  A quote object. The live mapping sets ten properties and the simulated one twelve, so
  \<open>isLive\<close> and \<open>source\<close> may be absent; \<open>symbol\<close> is absent when the provider sends none.
\<close>

record QuoteRecord =
  q_symbol :: "string option"
  q_price :: jsnum
  q_change :: jsnum
  q_changePercent :: jsnum
  q_volume :: jsnum
  q_high :: jsnum
  q_low :: jsnum
  q_open :: jsnum
  q_previousClose :: jsnum
  q_timestamp :: int
  q_isLive :: "bool option"
  q_source :: "string option"

record quote_cache_entry =
  qce_data :: QuoteRecord
  qce_timestamp :: int

record MarketDataService =
  mds_alphaVantageKey :: "string option"
  mds_polygonKey :: "string option"
  mds_finnhubKey :: "string option"
  mds_cache :: "string \<rightharpoonup> quote_cache_entry"
  mds_cacheTimeout :: int

definition MarketDataService_new :: "process_env \<Rightarrow> MarketDataService" where
  "MarketDataService_new env =
     \<lparr> mds_alphaVantageKey = REACT_APP_ALPHA_VANTAGE_KEY env,
       mds_polygonKey = REACT_APP_POLYGON_KEY env,
       mds_finnhubKey = REACT_APP_FINNHUB_KEY env,
       mds_cache = Map.empty,
       mds_cacheTimeout = 60000 \<rparr>"

text \<open>
  The decoded body of the quote provider: the three message properties the code tests, and
  the \<open>Global Quote\<close> object, whose properties are strings.
\<close>

record av_quote =
  Information :: "string option"
  Error_Message :: "string option"
  Note :: "string option"
  Global_Quote :: "(string \<rightharpoonup> string) option"

definition js_message :: "js_error \<Rightarrow> string" where
  "js_message e = (case e of Error m \<Rightarrow> m | TypeError m \<Rightarrow> m | Rejected m \<Rightarrow> m)"

definition parseAlphaVantageData :: "int \<Rightarrow> av_quote \<Rightarrow> js_error + QuoteRecord" where
  "parseAlphaVantageData now data =
     (case Global_Quote data of
        None \<Rightarrow> Inl (Error ''Invalid response format'')
      | Some quote \<Rightarrow>
          (case quote ''10. change percent'' of
             None \<Rightarrow> Inl (TypeError ''Cannot read properties of undefined (reading 'replace')'')
           | Some cp \<Rightarrow>
               Inr \<lparr> q_symbol = quote ''01. symbol'',
                     q_price = parseFloat_prop (quote ''05. price''),
                     q_change = parseFloat_prop (quote ''09. change''),
                     q_changePercent = parseFloat (str_replace ''%'' [] cp),
                     q_volume = parseInt_prop (quote ''06. volume''),
                     q_high = parseFloat_prop (quote ''03. high''),
                     q_low = parseFloat_prop (quote ''04. low''),
                     q_open = parseFloat_prop (quote ''02. open''),
                     q_previousClose = parseFloat_prop (quote ''08. previous close''),
                     q_timestamp = now,
                     q_isLive = None,
                     q_source = None \<rparr>))"

definition alphaVantage_quote_url :: "string \<Rightarrow> string \<Rightarrow> string" where
  "alphaVantage_quote_url symbol key =
     ''https://www.alphavantage.co/query?function=GLOBAL_QUOTE&symbol='' @ symbol
       @ ''&apikey='' @ key"

text \<open>
  \<open>fetchAlphaVantageData\<close> on what the request yields: a transport failure (of \<open>fetch\<close> or of
  \<open>response.json()\<close>), the body \<open>null\<close>, or a decoded object.
\<close>

definition fetchAlphaVantageData :: "int \<Rightarrow> av_quote option http \<Rightarrow> js_error + QuoteRecord" where
  "fetchAlphaVantageData now response =
     (case response of
        Transport_failure m \<Rightarrow> Inl (Rejected m)
      | Body None \<Rightarrow> Inl (TypeError ''Cannot read properties of null (reading 'Information')'')
      | Body (Some data) \<Rightarrow>
          if truthy (Information data) then
            Inl (Error ''Rate limit exceeded - using simulated data'')
          else if truthy (Error_Message data) then
            Inl (Error (''API Error: '' @ the (Error_Message data)))
          else if truthy (Note data) then
            Inl (Error (''API Note: '' @ the (Note data)))
          else parseAlphaVantageData now data)"

text \<open>The inputs of one run of the simulated-quote generator.\<close>

record mock_draws =
  r_variation :: real
  r_dailyChange :: real
  r_volume :: real
  mock_time :: int

definition basePrices :: "(string \<times> real) list" where
  "basePrices =
     [(''AAPL'', 180), (''MSFT'', 415), (''NVDA'', 450), (''GOOGL'', 140), (''META'', 500),
      (''AMZN'', 140), (''TSLA'', 240), (''BRK.B'', 430), (''JPM'', 185), (''V'', 245)]"

text \<open>
  \<open>basePrices[symbol] || 100\<close>. The table is an object literal, so a symbol that names a
  property of \<open>Object.prototype\<close> finds that property, which is truthy and no number.
\<close>

definition object_prototype_keys :: "string list" where
  "object_prototype_keys =
     [''constructor'', ''hasOwnProperty'', ''isPrototypeOf'', ''propertyIsEnumerable'',
      ''toLocaleString'', ''toString'', ''valueOf'', ''__proto__'', ''__defineGetter__'',
      ''__defineSetter__'', ''__lookupGetter__'', ''__lookupSetter__'']"

definition basePrice :: "string \<Rightarrow> jsnum" where
  "basePrice symbol =
     (case map_of basePrices symbol of
        Some p \<Rightarrow> Num p
      | None \<Rightarrow> if symbol \<in> set object_prototype_keys then NaN else Num 100)"

definition baseVolume :: "string \<Rightarrow> real" where
  "baseVolume symbol =
     (if symbol = ''AAPL'' then 50000000
      else if symbol = ''NVDA'' then 25000000
      else if symbol = ''MSFT'' then 30000000
      else 20000000)"

text \<open>\<open>Math.round(x * 100) / 100\<close>\<close>

definition round2 :: "real \<Rightarrow> real" where
  "round2 x = real_of_int (math_round (x * 100)) / 100"

definition generateRealisticMockData :: "string \<Rightarrow> mock_draws \<Rightarrow> QuoteRecord" where
  "generateRealisticMockData symbol d =
     (let variation = (r_variation d - 1 / 2) * (6 / 100);
          currentPrice = (\<lambda>bp. bp * (1 + variation));
          dailyChange = (r_dailyChange d - 1 / 2) * (4 / 100);
          change = (\<lambda>bp. currentPrice bp * dailyChange);
          changePercent = dailyChange * 100;
          volume = math_floor (baseVolume symbol * (1 / 2 + r_volume d))
      in \<lparr> q_symbol = Some symbol,
           q_price = js_apply (\<lambda>bp. round2 (currentPrice bp)) (basePrice symbol),
           q_change = js_apply (\<lambda>bp. round2 (change bp)) (basePrice symbol),
           q_changePercent = Num (round2 changePercent),
           q_volume = Num (real_of_int volume),
           q_high = js_apply (\<lambda>bp. round2 (currentPrice bp * (102 / 100))) (basePrice symbol),
           q_low = js_apply (\<lambda>bp. round2 (currentPrice bp * (98 / 100))) (basePrice symbol),
           q_open = js_apply (\<lambda>bp. round2 (currentPrice bp * (1 - dailyChange * (1 / 2))))
                      (basePrice symbol),
           q_previousClose = js_apply (\<lambda>bp. round2 (currentPrice bp - change bp)) (basePrice symbol),
           q_timestamp = mock_time d,
           q_isLive = Some False,
           q_source = Some ''Simulated (Rate Limited)'' \<rparr>)"

text \<open>
  What one call of \<open>getRealTimeStockData\<close> reads from outside: the clock at the cache check,
  the answer to each URL it may request, the clock when the answer is mapped and when it is
  cached, and the generator's inputs.
\<close>

record quote_world =
  qw_now_check :: int
  qw_fetch :: "string \<Rightarrow> av_quote option http"
  qw_now_parse :: int
  qw_now_set :: int
  qw_mock :: mock_draws

text \<open>
  The outcome of a call: how the promise settles, the cache entry the call writes (if any),
  and the URLs it requested, in order.
\<close>

record quote_result =
  settled :: "js_error + QuoteRecord"
  written :: "(string \<times> quote_cache_entry) option"
  requests :: "string list"

definition quote_key :: "string \<Rightarrow> string" where
  "quote_key symbol = ''quote_'' @ symbol"

definition cached_quote :: "MarketDataService \<Rightarrow> int \<Rightarrow> string \<Rightarrow> QuoteRecord option" where
  "cached_quote svc now cacheKey =
     (case mds_cache svc cacheKey of
        None \<Rightarrow> None
      | Some cached \<Rightarrow>
          if now - qce_timestamp cached < mds_cacheTimeout svc then Some (qce_data cached)
          else None)"

definition getRealTimeStockData :: "MarketDataService \<Rightarrow> quote_world \<Rightarrow> string \<Rightarrow> quote_result" where
  "getRealTimeStockData svc w symbol =
     (let cacheKey = quote_key symbol in
      case cached_quote svc (qw_now_check w) cacheKey of
        Some data \<Rightarrow> \<lparr> settled = Inr data, written = None, requests = [] \<rparr>
      | None \<Rightarrow>
          if truthy (mds_alphaVantageKey svc) then
            (let u = alphaVantage_quote_url symbol (the (mds_alphaVantageKey svc)) in
             case fetchAlphaVantageData (qw_now_parse w) (qw_fetch w u) of
               Inr data \<Rightarrow>
                 \<lparr> settled = Inr data,
                   written = Some (cacheKey, \<lparr> qce_data = data, qce_timestamp = qw_now_set w \<rparr>),
                   requests = [u] \<rparr>
             | Inl error \<Rightarrow>
                 \<lparr> settled = Inr (generateRealisticMockData symbol (qw_mock w)),
                   written = None, requests = [u] \<rparr>)
          else
            \<lparr> settled = Inr (generateRealisticMockData symbol (qw_mock w)),
              written = None, requests = [] \<rparr>)"

definition commit :: "MarketDataService \<Rightarrow> quote_result \<Rightarrow> MarketDataService" where
  "commit svc r =
     (case written r of
        None \<Rightarrow> svc
      | Some (k, e) \<Rightarrow> svc\<lparr> mds_cache := (mds_cache svc)(k \<mapsto> e) \<rparr>)"

text \<open>
  \<open>getBatchStockData\<close>. The calls are started one after the other on the same cache, each
  with its own inputs, and each runs up to its request before any answer arrives; the
  answers are taken to arrive in the order of the symbols, which matters to the cache only
  when a symbol occurs twice.
\<close>

record BatchItem =
  bi_symbol :: string
  bi_data :: QuoteRecord
  bi_error :: "string option"

record batch_world =
  bw_call :: "nat \<Rightarrow> quote_world"
  bw_mock :: "nat \<Rightarrow> mock_draws"

definition batch_results :: "MarketDataService \<Rightarrow> batch_world \<Rightarrow> string list \<Rightarrow> quote_result list" where
  "batch_results svc bw symbols =
     map (\<lambda>(index, symbol). getRealTimeStockData svc (bw_call bw index) symbol)
       (enumerate 0 symbols)"

definition batch_item :: "batch_world \<Rightarrow> string list \<Rightarrow> nat \<Rightarrow> quote_result \<Rightarrow> BatchItem" where
  "batch_item bw symbols index result =
     (case settled result of
        Inr v \<Rightarrow> \<lparr> bi_symbol = symbols ! index, bi_data = v, bi_error = None \<rparr>
      | Inl reason \<Rightarrow>
          \<lparr> bi_symbol = symbols ! index,
            bi_data = generateRealisticMockData (symbols ! index) (bw_mock bw index),
            bi_error = Some (js_message reason) \<rparr>)"

definition getBatchStockData :: "MarketDataService \<Rightarrow> batch_world \<Rightarrow> string list \<Rightarrow> BatchItem list \<times> MarketDataService" where
  "getBatchStockData svc bw symbols =
     (let results = batch_results svc bw symbols
      in (map (\<lambda>(index, result). batch_item bw symbols index result) (enumerate 0 results),
          foldl commit svc results))"

text \<open>The states of a \<open>MarketDataService\<close>: as constructed, and after any call.\<close>

inductive quotes_reachable :: "process_env \<Rightarrow> MarketDataService \<Rightarrow> bool" for env :: process_env where
  quotes_init: "quotes_reachable env (MarketDataService_new env)"
| quotes_step:
    "quotes_reachable env svc \<Longrightarrow>
     quotes_reachable env (commit svc (getRealTimeStockData svc w symbol))"
| quotes_batch:
    "quotes_reachable env svc \<Longrightarrow>
     quotes_reachable env (snd (getBatchStockData svc bw symbols))"

section \<open>AIFinancialService: extraction from the analysis text\<close>










text \<open>
  The stock passed to the report. Its sector is the key of the tables of per-sector ranges.
\<close>

record stock =
  stock_symbol :: string
  stock_name :: string
  stock_price :: jsnum
  stock_changePercent :: jsnum
  stock_sector :: string











section \<open>Notions used in the statements\<close>

text \<open>
  The answers of the quote provider on which \<open>fetchAlphaVantageData\<close> raises, read off
  its code: a transport failure; a body that is \<open>null\<close>; a truthy \<open>Information\<close>, \<open>Note\<close>
  or \<open>Error Message\<close>; no \<open>Global Quote\<close>; a \<open>Global Quote\<close> without the text
  \<open>10. change percent\<close>. These are fewer than the malformed answers: no other property
  of the \<open>Global Quote\<close> is looked for.
\<close>

definition failure_signal :: "av_quote option http \<Rightarrow> bool" where
  "failure_signal response =
     (case response of
        Transport_failure m \<Rightarrow> True
      | Body None \<Rightarrow> True
      | Body (Some data) \<Rightarrow>
          truthy (Information data) \<or> truthy (Note data) \<or> truthy (Error_Message data)
          \<or> (case Global_Quote data of
                None \<Rightarrow> True
              | Some quote \<Rightarrow> quote ''10. change percent'' = None))"




text \<open>What the cache of a reachable service holds, and its time to live.\<close>

definition alerts_cache_ok :: "NewsService \<Rightarrow> bool" where
  "alerts_cache_ok svc \<longleftrightarrow>
     ns_cacheTimeout svc = 300000
     \<and> (case ns_cache svc ''market_alerts'' of
          None \<Rightarrow> True
        | Some cached \<Rightarrow> length (ace_data cached) \<le> 10)"


section \<open>Sample inputs\<close>

definition env_no_keys :: process_env where
  "env_no_keys =
     \<lparr> REACT_APP_ALPHA_VANTAGE_KEY = None, REACT_APP_FINNHUB_KEY = None,
       REACT_APP_NEWS_API_KEY = None, REACT_APP_POLYGON_KEY = None \<rparr>"

definition env_alpha_vantage :: process_env where
  "env_alpha_vantage =
     \<lparr> REACT_APP_ALPHA_VANTAGE_KEY = Some ''demo'', REACT_APP_FINNHUB_KEY = None,
       REACT_APP_NEWS_API_KEY = None, REACT_APP_POLYGON_KEY = None \<rparr>"

definition env_polygon_finnhub :: process_env where
  "env_polygon_finnhub =
     \<lparr> REACT_APP_ALPHA_VANTAGE_KEY = None, REACT_APP_FINNHUB_KEY = Some ''fh-key'',
       REACT_APP_NEWS_API_KEY = None, REACT_APP_POLYGON_KEY = Some ''pg-key'' \<rparr>"

definition mid_draws :: mock_draws where
  "mid_draws = \<lparr> r_variation = 1 / 2, r_dailyChange = 1 / 2, r_volume = 1 / 2, mock_time = 5000 \<rparr>"

definition low_draws :: mock_draws where
  "low_draws = \<lparr> r_variation = 0, r_dailyChange = 1 / 4, r_volume = 0, mock_time = 9000 \<rparr>"

definition aapl_quote :: av_quote where
  "aapl_quote =
     \<lparr> Information = None, Error_Message = None, Note = None,
       Global_Quote = Some (map_of
         [(''01. symbol'', ''AAPL''), (''02. open'', ''194.10''), (''03. high'', ''196.00''),
          (''04. low'', ''193.50''), (''05. price'', ''195.42''), (''06. volume'', ''48211500''),
          (''08. previous close'', ''193.08''), (''09. change'', ''2.34''),
          (''10. change percent'', ''1.2119%'')]) \<rparr>"

definition rate_limited_quote :: av_quote where
  "rate_limited_quote =
     \<lparr> Information = Some ''Thank you for using Alpha Vantage! Please consider a premium plan.'',
       Error_Message = None, Note = None, Global_Quote = None \<rparr>"



definition world_live :: quote_world where
  "world_live =
     \<lparr> qw_now_check = 1000, qw_fetch = (\<lambda>u. Body (Some aapl_quote)), qw_now_parse = 1200,
       qw_now_set = 1250, qw_mock = mid_draws \<rparr>"

definition world_rate_limited :: quote_world where
  "world_rate_limited =
     \<lparr> qw_now_check = 1000, qw_fetch = (\<lambda>u. Body (Some rate_limited_quote)),
       qw_now_parse = 1200, qw_now_set = 1250, qw_mock = mid_draws \<rparr>"

definition world_unreachable :: quote_world where
  "world_unreachable =
     \<lparr> qw_now_check = 1000, qw_fetch = (\<lambda>u. Transport_failure ''Failed to fetch''),
       qw_now_parse = 1200, qw_now_set = 1250, qw_mock = mid_draws \<rparr>"

definition world_later :: quote_world where
  "world_later =
     \<lparr> qw_now_check = 31250, qw_fetch = (\<lambda>u. Transport_failure ''Failed to fetch''),
       qw_now_parse = 31400, qw_now_set = 31450, qw_mock = low_draws \<rparr>"

definition batch_unreachable :: batch_world where
  "batch_unreachable = \<lparr> bw_call = (\<lambda>i. world_unreachable), bw_mock = (\<lambda>i. low_draws) \<rparr>"

definition sample_draws :: alert_draws where
  "sample_draws =
     \<lparr> currentTime = 100000000,
       r_minutesAgo = (\<lambda>i. if i = 0 then 9 / 10 else if i = 1 then 1 / 10 else 1 / 2),
       r_symbol = (\<lambda>i. 1 / 2), r_percent = (\<lambda>i. 1 / 2), r_amount = (\<lambda>i. 1 / 2),
       r_price = (\<lambda>i. 1 / 2), id_now = (\<lambda>i. 100000000) \<rparr>"

definition other_draws :: alert_draws where
  "other_draws =
     \<lparr> currentTime = 100060000,
       r_minutesAgo = (\<lambda>i. 1 / 4),
       r_symbol = (\<lambda>i. 0), r_percent = (\<lambda>i. 0), r_amount = (\<lambda>i. 0),
       r_price = (\<lambda>i. 0), id_now = (\<lambda>i. 100060000) \<rparr>"

definition alerts_world_offline :: alerts_world where
  "alerts_world_offline =
     \<lparr> now_check = 100000000, avNews = Transport_failure ''Failed to fetch'',
       finnhubNews = Transport_failure ''Failed to fetch'', draws = sample_draws,
       now_set = 100000005 \<rparr>"

definition alerts_world_later :: alerts_world where
  "alerts_world_later =
     \<lparr> now_check = 100060000, avNews = Transport_failure ''Failed to fetch'',
       finnhubNews = Transport_failure ''Failed to fetch'', draws = other_draws,
       now_set = 100060005 \<rparr>"

definition env_finnhub :: process_env where
  "env_finnhub =
     \<lparr> REACT_APP_ALPHA_VANTAGE_KEY = None, REACT_APP_FINNHUB_KEY = Some ''fh-key'',
       REACT_APP_NEWS_API_KEY = None, REACT_APP_POLYGON_KEY = None \<rparr>"

definition finnhub_items :: "fh_article list" where
  "finnhub_items =
     [ \<lparr> fh_id = 7001, headline = Some ''Chipmaker shares jump'', datetime = Num 1700000100 \<rparr>,
       \<lparr> fh_id = 7002, headline = Some ''Oil prices drop'', datetime = Num 1700000300 \<rparr>,
       \<lparr> fh_id = 7003, headline = Some ''Bank names new CFO'', datetime = Num 1700000200 \<rparr> ]"

definition alerts_world_finnhub :: alerts_world where
  "alerts_world_finnhub =
     \<lparr> now_check = 1700000400000, avNews = Transport_failure ''Failed to fetch'',
       finnhubNews = Body (Some finnhub_items), draws = sample_draws,
       now_set = 1700000400200 \<rparr>"

text \<open>Two articles whose \<open>time_published\<close> is the compact text that is no JavaScript date.\<close>

definition undated_feed :: av_news where
  "undated_feed =
     \<lparr> feed = Some
         [ \<lparr> url = ''https://example.com/a'', title = Some ''Markets open higher'',
             ticker_sentiment = None, overall_sentiment_score = Num (1 / 10),
             time_published = None \<rparr>,
           \<lparr> url = ''https://example.com/b'', title = Some ''Yields ease'',
             ticker_sentiment = None, overall_sentiment_score = Num 0,
             time_published = None \<rparr> ] \<rparr>"

definition alerts_world_undated :: alerts_world where
  "alerts_world_undated =
     \<lparr> now_check = 100000000, avNews = Body (Some undated_feed),
       finnhubNews = Transport_failure ''Failed to fetch'', draws = sample_draws,
       now_set = 100000005 \<rparr>"



section \<open>Evaluation rules\<close>

lemma show_nat_small: "n < 10 \<Longrightarrow> show_nat n = [''0123456789'' ! n]"
  by (simp add: show_nat.simps)

lemma show_nat_big:
  "\<not> n < 10 \<Longrightarrow> show_nat n = show_nat (n div 10) @ [''0123456789'' ! (n mod 10)]"
  by (subst show_nat.simps) simp

lemmas text_eval =
  toLowerCase_def toLowerChar_def toUpperCase_def toUpperChar_def upperAZ_def lowerAZ_def
  isDigit_def isSpace_def digitVal_def digitsVal_def

section \<open>Headline classification\<close>

lemma str_includes_sublist: "str_includes s w \<longleftrightarrow> sublist w s"
  by (induction s) (auto simp: sublist_Cons_right)

lemma determineAlertTypeFromHeadline_sublist:
  "determineAlertTypeFromHeadline h =
     (if \<exists>w \<in> set bullishKeywords. sublist w (toLowerCase h) then Bullish
      else if \<exists>w \<in> set bearishKeywords. sublist w (toLowerCase h) then Bearish
      else Neutral)"
  by (simp add: determineAlertTypeFromHeadline_def list_ex_iff str_includes_sublist)

text \<open>
  C8. A headline is bullish when its lower-cased text contains one of beat, surge, rally,
  jump, gain, bullish, up, rise; otherwise bearish when it contains one of fall, drop,
  decline, bear, down, plunge, crash; otherwise neutral. The three headlines of the
  specification classify as bullish, bearish and neutral.
\<close>

theorem headline_keywords_bullish_first:
  "determineAlertTypeFromHeadline h =
     (if \<exists>w \<in> set [''beat'', ''surge'', ''rally'', ''jump'', ''gain'', ''bullish'', ''up'', ''rise''].
           sublist w (toLowerCase h) then Bullish
      else if \<exists>w \<in> set [''fall'', ''drop'', ''decline'', ''bear'', ''down'', ''plunge'', ''crash''].
           sublist w (toLowerCase h) then Bearish
      else Neutral)
   \<and> determineAlertTypeFromHeadline ''Stock surges after earnings beat'' = Bullish
   \<and> determineAlertTypeFromHeadline ''Shares plunge on guidance cut'' = Bearish
   \<and> determineAlertTypeFromHeadline ''Company names new CFO'' = Neutral"
proof -
  have general: "determineAlertTypeFromHeadline h =
     (if \<exists>w \<in> set [''beat'', ''surge'', ''rally'', ''jump'', ''gain'', ''bullish'', ''up'', ''rise''].
           sublist w (toLowerCase h) then Bullish
      else if \<exists>w \<in> set [''fall'', ''drop'', ''decline'', ''bear'', ''down'', ''plunge'', ''crash''].
           sublist w (toLowerCase h) then Bearish
      else Neutral)"
    unfolding determineAlertTypeFromHeadline_sublist bullishKeywords_def bearishKeywords_def ..
  have e1: "determineAlertTypeFromHeadline ''Stock surges after earnings beat'' = Bullish"
    by (simp add: determineAlertTypeFromHeadline_def bullishKeywords_def text_eval)
  have e2: "determineAlertTypeFromHeadline ''Shares plunge on guidance cut'' = Bearish"
    by (simp add: determineAlertTypeFromHeadline_def bullishKeywords_def bearishKeywords_def
        text_eval)
  have e3: "determineAlertTypeFromHeadline ''Company names new CFO'' = Neutral"
    by (simp add: determineAlertTypeFromHeadline_def bullishKeywords_def bearishKeywords_def
        text_eval)
  from general e1 e2 e3 show ?thesis by blast
qed

theorem headline_keywords_bullish_first_witness:
  "determineAlertTypeFromHeadline ''Markets rally as yields fall'' = Bullish"
proof -
  have "sublist ''rally'' (toLowerCase ''Markets rally as yields fall'')"
    by (simp add: text_eval sublist_Cons_right)
  then show ?thesis
    using headline_keywords_bullish_first [of "''Markets rally as yields fall''"] by auto
qed

text \<open>
  C9. Containment is by substring, with no word boundary: wherever a bullish keyword
  occurs in the lower-cased headline, also inside a longer word and whatever else the
  headline contains, the headline is bullish.
\<close>

theorem headline_substring_is_bullish:
  "w \<in> set bullishKeywords \<Longrightarrow> toLowerCase h = pre @ w @ post \<Longrightarrow>
   determineAlertTypeFromHeadline h = Bullish"
  unfolding determineAlertTypeFromHeadline_sublist sublist_def by auto

theorem headline_substring_is_bullish_witness:
  "''up'' \<in> set bullishKeywords
   \<and> toLowerCase ''Supply chain crash hits chipmakers'' = ''s'' @ ''up'' @ ''ply chain crash hits chipmakers''
   \<and> sublist ''crash'' (toLowerCase ''Supply chain crash hits chipmakers'')
   \<and> ''crash'' \<in> set bearishKeywords
   \<and> determineAlertTypeFromHeadline ''Supply chain crash hits chipmakers'' = Bullish"
proof -
  have k: "''up'' \<in> set bullishKeywords"
    by (simp add: bullishKeywords_def)
  have t: "toLowerCase ''Supply chain crash hits chipmakers'' = ''s'' @ ''up'' @ ''ply chain crash hits chipmakers''"
    by (simp add: text_eval)
  have b: "sublist ''crash'' (toLowerCase ''Supply chain crash hits chipmakers'')"
    by (simp add: text_eval sublist_Cons_right)
  have c: "''crash'' \<in> set bearishKeywords"
    by (simp add: bearishKeywords_def)
  from k t b c headline_substring_is_bullish [OF k t] show ?thesis by blast
qed

section \<open>Quotes: the fetch, its fallback and its cache\<close>

lemma fetch_fails_iff: "isl (fetchAlphaVantageData now response) \<longleftrightarrow> failure_signal response"
  by (auto simp: fetchAlphaVantageData_def parseAlphaVantageData_def failure_signal_def
      split: http.splits option.splits)

lemma fetch_fails_cases:
  "failure_signal response \<Longrightarrow> \<exists>e. fetchAlphaVantageData now response = Inl e"
  using fetch_fails_iff [of now response] by (cases "fetchAlphaVantageData now response") auto

lemma fetch_succeeds_no_signal:
  "fetchAlphaVantageData now response = Inr q \<Longrightarrow> \<not> failure_signal response"
  using fetch_fails_iff [of now response] by auto

lemma quote_hit:
  "cached_quote svc (qw_now_check w) (quote_key S) = Some q \<Longrightarrow>
   getRealTimeStockData svc w S = \<lparr> settled = Inr q, written = None, requests = [] \<rparr>"
  by (simp add: getRealTimeStockData_def)

lemma quote_miss_no_key:
  "cached_quote svc (qw_now_check w) (quote_key S) = None \<Longrightarrow>
   \<not> truthy (mds_alphaVantageKey svc) \<Longrightarrow>
   getRealTimeStockData svc w S =
     \<lparr> settled = Inr (generateRealisticMockData S (qw_mock w)), written = None, requests = [] \<rparr>"
  by (simp add: getRealTimeStockData_def)

lemma quote_miss_failure:
  "cached_quote svc (qw_now_check w) (quote_key S) = None \<Longrightarrow>
   truthy (mds_alphaVantageKey svc) \<Longrightarrow>
   failure_signal (qw_fetch w (alphaVantage_quote_url S (the (mds_alphaVantageKey svc)))) \<Longrightarrow>
   getRealTimeStockData svc w S =
     \<lparr> settled = Inr (generateRealisticMockData S (qw_mock w)), written = None,
       requests = [alphaVantage_quote_url S (the (mds_alphaVantageKey svc))] \<rparr>"
  using fetch_fails_cases [of "qw_fetch w (alphaVantage_quote_url S (the (mds_alphaVantageKey svc)))"
      "qw_now_parse w"]
  by (auto simp: getRealTimeStockData_def)

lemma quote_miss_live:
  "cached_quote svc (qw_now_check w) (quote_key S) = None \<Longrightarrow>
   truthy (mds_alphaVantageKey svc) \<Longrightarrow>
   fetchAlphaVantageData (qw_now_parse w)
     (qw_fetch w (alphaVantage_quote_url S (the (mds_alphaVantageKey svc)))) = Inr q \<Longrightarrow>
   getRealTimeStockData svc w S =
     \<lparr> settled = Inr q,
       written = Some (quote_key S, \<lparr> qce_data = q, qce_timestamp = qw_now_set w \<rparr>),
       requests = [alphaVantage_quote_url S (the (mds_alphaVantageKey svc))] \<rparr>"
  by (simp add: getRealTimeStockData_def)

lemma quote_settles: "\<exists>q. settled (getRealTimeStockData svc w S) = Inr q"
  by (simp add: getRealTimeStockData_def Let_def split: option.splits sum.splits)

lemma quote_fallback:
  assumes "cached_quote svc (qw_now_check w) (quote_key S) = None"
    and "\<not> truthy (mds_alphaVantageKey svc)
         \<or> failure_signal (qw_fetch w (alphaVantage_quote_url S (the (mds_alphaVantageKey svc))))"
  shows "settled (getRealTimeStockData svc w S) = Inr (generateRealisticMockData S (qw_mock w))"
    and "written (getRealTimeStockData svc w S) = None"
  using assms
  by (cases "truthy (mds_alphaVantageKey svc)"; simp add: quote_miss_no_key quote_miss_failure)+

lemma mock_fields:
  "q_symbol (generateRealisticMockData S d) = Some S"
  "q_isLive (generateRealisticMockData S d) = Some False"
  "q_source (generateRealisticMockData S d) = Some ''Simulated (Rate Limited)''"
  "q_timestamp (generateRealisticMockData S d) = mock_time d"
  by (simp_all add: generateRealisticMockData_def Let_def)

lemma mock_price:
  "q_price (generateRealisticMockData S d) =
     js_apply (\<lambda>bp. round2 (bp * (1 + (r_variation d - 1 / 2) * (6 / 100)))) (basePrice S)"
  by (simp add: generateRealisticMockData_def Let_def)

subsection \<open>What every reachable service satisfies\<close>

lemma commit_config:
  "mds_cacheTimeout (commit svc r) = mds_cacheTimeout svc"
  "mds_alphaVantageKey (commit svc r) = mds_alphaVantageKey svc"
  "mds_polygonKey (commit svc r) = mds_polygonKey svc"
  "mds_finnhubKey (commit svc r) = mds_finnhubKey svc"
  by (simp_all add: commit_def split: option.splits prod.splits)

lemma foldl_commit_config:
  "mds_cacheTimeout (foldl commit svc rs) = mds_cacheTimeout svc
   \<and> mds_alphaVantageKey (foldl commit svc rs) = mds_alphaVantageKey svc
   \<and> mds_polygonKey (foldl commit svc rs) = mds_polygonKey svc
   \<and> mds_finnhubKey (foldl commit svc rs) = mds_finnhubKey svc"
  by (induction rs arbitrary: svc) (simp_all add: commit_config)

lemma reachable_config:
  "quotes_reachable env svc \<Longrightarrow>
   mds_cacheTimeout svc = 60000
   \<and> mds_alphaVantageKey svc = REACT_APP_ALPHA_VANTAGE_KEY env
   \<and> mds_polygonKey svc = REACT_APP_POLYGON_KEY env
   \<and> mds_finnhubKey svc = REACT_APP_FINNHUB_KEY env"
proof (induction rule: quotes_reachable.induct)
  case quotes_init
  show ?case by (simp add: MarketDataService_new_def)
next
  case (quotes_step svc w symbol)
  then show ?case by (simp add: commit_config)
next
  case (quotes_batch svc bw symbols)
  then show ?case by (simp add: getBatchStockData_def Let_def foldl_commit_config)
qed

lemma nothing_written_without_key:
  "\<not> truthy (mds_alphaVantageKey svc) \<Longrightarrow> written (getRealTimeStockData svc w S) = None"
  by (simp add: getRealTimeStockData_def Let_def split: option.splits)

lemma commit_nothing: "written r = None \<Longrightarrow> commit svc r = svc"
  by (simp add: commit_def)

lemma foldl_commit_nothing: "\<forall>r \<in> set rs. written r = None \<Longrightarrow> foldl commit svc rs = svc"
  by (induction rs arbitrary: svc) (simp_all add: commit_nothing)

lemma batch_nothing_without_key:
  "\<not> truthy (mds_alphaVantageKey svc) \<Longrightarrow> snd (getBatchStockData svc bw symbols) = svc"
  by (auto simp: getBatchStockData_def Let_def batch_results_def nothing_written_without_key
      intro!: foldl_commit_nothing)

lemma reachable_cache_empty:
  "quotes_reachable env svc \<Longrightarrow> \<not> truthy (REACT_APP_ALPHA_VANTAGE_KEY env) \<Longrightarrow>
   mds_cache svc = Map.empty"
proof (induction rule: quotes_reachable.induct)
  case quotes_init
  show ?case by (simp add: MarketDataService_new_def)
next
  case (quotes_step svc w symbol)
  then have "\<not> truthy (mds_alphaVantageKey svc)"
    using reachable_config [of env svc] by simp
  then have "commit svc (getRealTimeStockData svc w symbol) = svc"
    by (simp add: commit_nothing nothing_written_without_key)
  with quotes_step show ?case by simp
next
  case (quotes_batch svc bw symbols)
  then have "\<not> truthy (mds_alphaVantageKey svc)"
    using reachable_config [of env svc] by simp
  then have "snd (getBatchStockData svc bw symbols) = svc"
    by (rule batch_nothing_without_key)
  with quotes_batch show ?case by simp
qed

lemmas quote_eval =
  MarketDataService_new_def cached_quote_def quote_key_def alphaVantage_quote_url_def
  failure_signal_def env_no_keys_def env_alpha_vantage_def env_polygon_finnhub_def
  world_live_def world_rate_limited_def world_unreachable_def world_later_def
  rate_limited_quote_def mid_draws_def low_draws_def

lemmas mock_eval =
  generateRealisticMockData_def basePrice_def basePrices_def baseVolume_def round2_def
  math_round_def math_floor_def object_prototype_keys_def Let_def






subsection \<open>The batch\<close>

lemma batch_results_length: "length (batch_results svc bw symbols) = length symbols"
  by (simp add: batch_results_def)

lemma batch_results_nth:
  "i < length symbols \<Longrightarrow>
   batch_results svc bw symbols ! i = getRealTimeStockData svc (bw_call bw i) (symbols ! i)"
  by (simp add: batch_results_def nth_enumerate_eq)

lemma batch_items_nth:
  assumes "i < length symbols"
  shows "fst (getBatchStockData svc bw symbols) ! i =
         batch_item bw symbols i (getRealTimeStockData svc (bw_call bw i) (symbols ! i))"
  using assms
  by (simp add: getBatchStockData_def Let_def batch_results_length nth_enumerate_eq
      batch_results_nth)

lemma batch_item_fulfilled:
  "settled r = Inr q \<Longrightarrow>
   batch_item bw symbols i r = \<lparr> bi_symbol = symbols ! i, bi_data = q, bi_error = None \<rparr>"
  by (simp add: batch_item_def)

lemma batch_items_length: "length (fst (getBatchStockData svc bw symbols)) = length symbols"
  by (simp add: getBatchStockData_def Let_def batch_results_length)

lemma batch_items_symbol:
  "i < length symbols \<Longrightarrow> bi_symbol (fst (getBatchStockData svc bw symbols) ! i) = symbols ! i"
  using quote_settles [of svc "bw_call bw i" "symbols ! i"]
  by (auto simp: batch_items_nth batch_item_fulfilled)

text \<open>
  C2. The batch returns one item per symbol, in the order of the symbols. The data of the
  item at each position is the quote to which the fetch of that symbol is fulfilled, so it
  is always there; it is the simulated quote when the cache misses and the credential is
  missing or the provider's answer signals a failure. The error of every item is null: the
  fetch absorbs each failure, so no item ever carries an error.
\<close>

theorem batch_one_item_per_symbol:
  "length (fst (getBatchStockData svc bw symbols)) = length symbols
   \<and> map bi_symbol (fst (getBatchStockData svc bw symbols)) = symbols
   \<and> (\<forall>i < length symbols.
        bi_error (fst (getBatchStockData svc bw symbols) ! i) = None
        \<and> settled (getRealTimeStockData svc (bw_call bw i) (symbols ! i))
            = Inr (bi_data (fst (getBatchStockData svc bw symbols) ! i))
        \<and> (cached_quote svc (qw_now_check (bw_call bw i)) (quote_key (symbols ! i)) = None
           \<and> (\<not> truthy (mds_alphaVantageKey svc)
              \<or> failure_signal (qw_fetch (bw_call bw i)
                   (alphaVantage_quote_url (symbols ! i) (the (mds_alphaVantageKey svc)))))
           \<longrightarrow> bi_data (fst (getBatchStockData svc bw symbols) ! i)
                 = generateRealisticMockData (symbols ! i) (qw_mock (bw_call bw i))))"
proof (intro conjI allI impI)
  show "length (fst (getBatchStockData svc bw symbols)) = length symbols"
    by (rule batch_items_length)
  show "map bi_symbol (fst (getBatchStockData svc bw symbols)) = symbols"
    by (rule nth_equalityI) (simp_all add: batch_items_length batch_items_symbol)
next
  fix i assume i: "i < length symbols"
  obtain q where q: "settled (getRealTimeStockData svc (bw_call bw i) (symbols ! i)) = Inr q"
    using quote_settles by blast
  have item: "fst (getBatchStockData svc bw symbols) ! i
              = \<lparr> bi_symbol = symbols ! i, bi_data = q, bi_error = None \<rparr>"
    using i q by (simp add: batch_items_nth batch_item_fulfilled)
  show "bi_error (fst (getBatchStockData svc bw symbols) ! i) = None"
    by (simp add: item)
  show "settled (getRealTimeStockData svc (bw_call bw i) (symbols ! i))
          = Inr (bi_data (fst (getBatchStockData svc bw symbols) ! i))"
    by (simp add: item q)
  assume "cached_quote svc (qw_now_check (bw_call bw i)) (quote_key (symbols ! i)) = None
           \<and> (\<not> truthy (mds_alphaVantageKey svc)
              \<or> failure_signal (qw_fetch (bw_call bw i)
                   (alphaVantage_quote_url (symbols ! i) (the (mds_alphaVantageKey svc)))))"
  then have "settled (getRealTimeStockData svc (bw_call bw i) (symbols ! i))
             = Inr (generateRealisticMockData (symbols ! i) (qw_mock (bw_call bw i)))"
    using quote_fallback(1) [of svc "bw_call bw i" "symbols ! i"] by blast
  with q show "bi_data (fst (getBatchStockData svc bw symbols) ! i)
               = generateRealisticMockData (symbols ! i) (qw_mock (bw_call bw i))"
    by (simp add: item)
qed

theorem batch_one_item_per_symbol_witness:
  "fst (getBatchStockData (MarketDataService_new env_alpha_vantage) batch_unreachable
         [''AAPL'', ''ZZZZ''])
   = [ \<lparr> bi_symbol = ''AAPL'', bi_data = generateRealisticMockData ''AAPL'' mid_draws,
         bi_error = None \<rparr>,
       \<lparr> bi_symbol = ''ZZZZ'', bi_data = generateRealisticMockData ''ZZZZ'' mid_draws,
         bi_error = None \<rparr> ]
   \<and> q_price (generateRealisticMockData ''ZZZZ'' mid_draws) = Num 100"
proof -
  let ?svc = "MarketDataService_new env_alpha_vantage"
  let ?items = "fst (getBatchStockData ?svc batch_unreachable [''AAPL'', ''ZZZZ''])"
  have call: "bw_call batch_unreachable i = world_unreachable" for i
    by (simp add: batch_unreachable_def)
  have miss: "cached_quote ?svc (qw_now_check world_unreachable) k = None" for k
    by (simp add: quote_eval)
  have sig: "failure_signal (qw_fetch world_unreachable u)" for u
    by (simp add: quote_eval)
  have mock: "qw_mock world_unreachable = mid_draws"
    by (simp add: world_unreachable_def)
  note fact = batch_one_item_per_symbol [of ?svc batch_unreachable "[''AAPL'', ''ZZZZ'']"]
  from fact have len: "length ?items = 2" by simp
  from fact have syms: "map bi_symbol ?items = [''AAPL'', ''ZZZZ'']" by blast
  from fact have at:
    "\<forall>i < 2. bi_error (?items ! i) = None
       \<and> bi_data (?items ! i) = generateRealisticMockData ([''AAPL'', ''ZZZZ''] ! i) mid_draws"
    by (simp add: call miss sig mock)
  from at have a0: "bi_error (?items ! 0) = None
      \<and> bi_data (?items ! 0) = generateRealisticMockData ''AAPL'' mid_draws"
    by auto
  from at have a1: "bi_error (?items ! 1) = None
      \<and> bi_data (?items ! 1) = generateRealisticMockData ''ZZZZ'' mid_draws"
    by auto
  from len obtain x y where xy: "?items = [x, y]"
    by (auto simp: length_Suc_conv numeral_2_eq_2)
  have price: "q_price (generateRealisticMockData ''ZZZZ'' mid_draws) = Num 100"
    by (simp add: mock_eval mid_draws_def)
  from xy syms a0 a1 price show ?thesis by simp
qed

subsection \<open>The provider chain\<close>

lemma cached_quote_other_keys:
  "cached_quote (svc\<lparr> mds_polygonKey := pk, mds_finnhubKey := fk \<rparr>) now k
   = cached_quote svc now k"
  by (simp add: cached_quote_def split: option.splits)

lemma other_keys_unused:
  "getRealTimeStockData (svc\<lparr> mds_polygonKey := pk, mds_finnhubKey := fk \<rparr>) w S
   = getRealTimeStockData svc w S"
  by (simp add: getRealTimeStockData_def cached_quote_other_keys Let_def split: option.splits)

text \<open>
  C3, as the code has it. After a cache miss the fetch requests one provider, Alpha
  Vantage, and only when its credential is present: a successful answer is mapped to the
  quote that is returned, and the simulated quote is returned when the answer signals a
  failure or the credential is missing. The Polygon and Finnhub credentials are stored by
  the constructor and have no effect on the fetch.
\<close>

theorem quote_chain_alpha_vantage_only:
  assumes "cached_quote svc (qw_now_check w) (quote_key S) = None"
  shows "(truthy (mds_alphaVantageKey svc) \<longrightarrow>
            requests (getRealTimeStockData svc w S)
              = [alphaVantage_quote_url S (the (mds_alphaVantageKey svc))]
            \<and> (\<forall>q. fetchAlphaVantageData (qw_now_parse w)
                      (qw_fetch w (alphaVantage_quote_url S (the (mds_alphaVantageKey svc)))) = Inr q
                   \<longrightarrow> settled (getRealTimeStockData svc w S) = Inr q)
            \<and> (failure_signal (qw_fetch w (alphaVantage_quote_url S (the (mds_alphaVantageKey svc))))
                 \<longrightarrow> settled (getRealTimeStockData svc w S)
                       = Inr (generateRealisticMockData S (qw_mock w))))
       \<and> (\<not> truthy (mds_alphaVantageKey svc) \<longrightarrow>
            requests (getRealTimeStockData svc w S) = []
            \<and> settled (getRealTimeStockData svc w S)
                = Inr (generateRealisticMockData S (qw_mock w)))
       \<and> getRealTimeStockData (svc\<lparr> mds_polygonKey := pk, mds_finnhubKey := fk \<rparr>) w S
           = getRealTimeStockData svc w S"
proof (intro conjI impI allI)
  assume key: "truthy (mds_alphaVantageKey svc)"
  let ?u = "alphaVantage_quote_url S (the (mds_alphaVantageKey svc))"
  show "requests (getRealTimeStockData svc w S) = [?u]"
    using assms key by (simp add: getRealTimeStockData_def Let_def split: sum.splits)
  show "settled (getRealTimeStockData svc w S) = Inr q"
    if "fetchAlphaVantageData (qw_now_parse w) (qw_fetch w ?u) = Inr q" for q
    using assms key that by (simp add: quote_miss_live)
  show "settled (getRealTimeStockData svc w S) = Inr (generateRealisticMockData S (qw_mock w))"
    if "failure_signal (qw_fetch w ?u)"
    using assms key that by (simp add: quote_miss_failure)
next
  assume "\<not> truthy (mds_alphaVantageKey svc)"
  with assms show "requests (getRealTimeStockData svc w S) = []"
    and "settled (getRealTimeStockData svc w S) = Inr (generateRealisticMockData S (qw_mock w))"
    by (simp_all add: quote_miss_no_key)
next
  show "getRealTimeStockData (svc\<lparr> mds_polygonKey := pk, mds_finnhubKey := fk \<rparr>) w S
        = getRealTimeStockData svc w S"
    by (rule other_keys_unused)
qed

lemma aapl_quote_parsed:
  "fetchAlphaVantageData 1200 (Body (Some aapl_quote)) =
     Inr \<lparr> q_symbol = Some ''AAPL'', q_price = Num (19542 / 100), q_change = Num (234 / 100),
           q_changePercent = Num (12119 / 10000), q_volume = Num 48211500,
           q_high = Num 196, q_low = Num (1935 / 10), q_open = Num (1941 / 10),
           q_previousClose = Num (19308 / 100), q_timestamp = 1200,
           q_isLive = None, q_source = None \<rparr>"
  by (simp add: fetchAlphaVantageData_def parseAlphaVantageData_def aapl_quote_def
      parseFloat_def parse_unsigned_def parse_exponent_def parseInt_def parseInt_unsigned_def
      text_eval)

theorem quote_chain_alpha_vantage_only_witness:
  "cached_quote (MarketDataService_new env_alpha_vantage) (qw_now_check world_live)
     (quote_key ''AAPL'') = None
   \<and> truthy (mds_alphaVantageKey (MarketDataService_new env_alpha_vantage))
   \<and> requests (getRealTimeStockData (MarketDataService_new env_alpha_vantage) world_live ''AAPL'')
       = [''https://www.alphavantage.co/query?function=GLOBAL_QUOTE&symbol=AAPL&apikey=demo'']
   \<and> (\<exists>q. settled (getRealTimeStockData (MarketDataService_new env_alpha_vantage) world_live
               ''AAPL'') = Inr q
          \<and> q_price q = Num (19542 / 100) \<and> q_isLive q = None)"
proof -
  let ?svc = "MarketDataService_new env_alpha_vantage"
  have miss: "cached_quote ?svc (qw_now_check world_live) (quote_key ''AAPL'') = None"
    by (simp add: quote_eval)
  have key: "truthy (mds_alphaVantageKey ?svc)"
    by (simp add: quote_eval)
  have url: "alphaVantage_quote_url ''AAPL'' (the (mds_alphaVantageKey ?svc))
             = ''https://www.alphavantage.co/query?function=GLOBAL_QUOTE&symbol=AAPL&apikey=demo''"
    by (simp add: quote_eval)
  have live: "fetchAlphaVantageData (qw_now_parse world_live)
                (qw_fetch world_live
                  (alphaVantage_quote_url ''AAPL'' (the (mds_alphaVantageKey ?svc))))
              = fetchAlphaVantageData 1200 (Body (Some aapl_quote))"
    by (simp add: world_live_def)
  from miss quote_chain_alpha_vantage_only [OF miss] key url live aapl_quote_parsed
  show ?thesis by simp
qed

text \<open>
  As the specification words it, the property fails: with the Polygon and Finnhub
  credentials present and every request certain to be answered with a valid quote, the
  fetch requests nothing and returns the simulated quote.
\<close>

theorem quote_chain_counterexample:
  "truthy (mds_polygonKey (MarketDataService_new env_polygon_finnhub))
   \<and> truthy (mds_finnhubKey (MarketDataService_new env_polygon_finnhub))
   \<and> requests (getRealTimeStockData (MarketDataService_new env_polygon_finnhub) world_live
        ''AAPL'') = []
   \<and> settled (getRealTimeStockData (MarketDataService_new env_polygon_finnhub) world_live
        ''AAPL'') = Inr (generateRealisticMockData ''AAPL'' mid_draws)
   \<and> q_isLive (generateRealisticMockData ''AAPL'' mid_draws) = Some False"
  by (simp add: getRealTimeStockData_def quote_eval mock_fields)

subsection \<open>The cache\<close>

lemma cached_after_commit:
  assumes "mds_cacheTimeout svc = 60000"
    and "now - t < 60000"
  shows "cached_quote (commit svc \<lparr> settled = Inr q,
            written = Some (k, \<lparr> qce_data = q, qce_timestamp = t \<rparr>), requests = us \<rparr>) now k
         = Some q"
  using assms by (simp add: cached_quote_def commit_def)

text \<open>
  C4. A live quote is written to the cache under the key of its symbol, and a second
  fetch of the symbol whose clock is less than 60000 ms past the write returns that very
  quote, time stamp included, without any request. A simulated quote is never written:
  the service is unchanged, and a further fetch that falls back again returns the quote
  generated from its own random draws.
\<close>

theorem quote_cache_holds_live_only:
  assumes "quotes_reachable env svc"
    and "cached_quote svc (qw_now_check w) (quote_key S) = None"
  shows "(truthy (mds_alphaVantageKey svc)
          \<and> fetchAlphaVantageData (qw_now_parse w)
              (qw_fetch w (alphaVantage_quote_url S (the (mds_alphaVantageKey svc)))) = Inr q
          \<longrightarrow> settled (getRealTimeStockData svc w S) = Inr q
              \<and> mds_cache (commit svc (getRealTimeStockData svc w S)) (quote_key S)
                  = Some \<lparr> qce_data = q, qce_timestamp = qw_now_set w \<rparr>
              \<and> (\<forall>w2. qw_now_check w2 - qw_now_set w < 60000 \<longrightarrow>
                    getRealTimeStockData (commit svc (getRealTimeStockData svc w S)) w2 S
                    = \<lparr> settled = Inr q, written = None, requests = [] \<rparr>))
       \<and> (\<not> truthy (mds_alphaVantageKey svc)
          \<or> failure_signal (qw_fetch w (alphaVantage_quote_url S (the (mds_alphaVantageKey svc))))
          \<longrightarrow> written (getRealTimeStockData svc w S) = None
              \<and> commit svc (getRealTimeStockData svc w S) = svc
              \<and> (\<forall>w2. cached_quote svc (qw_now_check w2) (quote_key S) = None
                       \<and> (\<not> truthy (mds_alphaVantageKey svc)
                          \<or> failure_signal (qw_fetch w2
                               (alphaVantage_quote_url S (the (mds_alphaVantageKey svc)))))
                    \<longrightarrow> settled (getRealTimeStockData (commit svc (getRealTimeStockData svc w S))
                                   w2 S)
                          = Inr (generateRealisticMockData S (qw_mock w2))))"
proof (intro conjI impI allI)
  assume live: "truthy (mds_alphaVantageKey svc)
          \<and> fetchAlphaVantageData (qw_now_parse w)
              (qw_fetch w (alphaVantage_quote_url S (the (mds_alphaVantageKey svc)))) = Inr q"
  have timeout: "mds_cacheTimeout svc = 60000"
    using assms(1) reachable_config by blast
  have r: "getRealTimeStockData svc w S =
     \<lparr> settled = Inr q,
       written = Some (quote_key S, \<lparr> qce_data = q, qce_timestamp = qw_now_set w \<rparr>),
       requests = [alphaVantage_quote_url S (the (mds_alphaVantageKey svc))] \<rparr>"
    using assms(2) live by (simp add: quote_miss_live)
  show "settled (getRealTimeStockData svc w S) = Inr q"
    by (simp add: r)
  show "mds_cache (commit svc (getRealTimeStockData svc w S)) (quote_key S)
          = Some \<lparr> qce_data = q, qce_timestamp = qw_now_set w \<rparr>"
    by (simp add: r commit_def)
  show "getRealTimeStockData (commit svc (getRealTimeStockData svc w S)) w2 S
          = \<lparr> settled = Inr q, written = None, requests = [] \<rparr>"
    if "qw_now_check w2 - qw_now_set w < 60000" for w2
    unfolding r using timeout that by (intro quote_hit cached_after_commit)
next
  assume fails: "\<not> truthy (mds_alphaVantageKey svc)
          \<or> failure_signal (qw_fetch w (alphaVantage_quote_url S (the (mds_alphaVantageKey svc))))"
  show none: "written (getRealTimeStockData svc w S) = None"
    using assms(2) fails by (rule quote_fallback(2))
  then show same: "commit svc (getRealTimeStockData svc w S) = svc"
    by (rule commit_nothing)
  show "settled (getRealTimeStockData (commit svc (getRealTimeStockData svc w S)) w2 S)
          = Inr (generateRealisticMockData S (qw_mock w2))"
    if "cached_quote svc (qw_now_check w2) (quote_key S) = None
         \<and> (\<not> truthy (mds_alphaVantageKey svc)
            \<or> failure_signal (qw_fetch w2
                 (alphaVantage_quote_url S (the (mds_alphaVantageKey svc)))))" for w2
    unfolding same using that quote_fallback(1) [of svc w2 S] by blast
qed

theorem quote_cache_holds_live_only_witness:
  "quotes_reachable env_alpha_vantage (MarketDataService_new env_alpha_vantage)
   \<and> qw_now_check world_later - qw_now_set world_live < 60000
   \<and> (\<exists>q. settled (getRealTimeStockData (MarketDataService_new env_alpha_vantage) world_live
               ''AAPL'') = Inr q
          \<and> q_timestamp q = 1200
          \<and> getRealTimeStockData
               (commit (MarketDataService_new env_alpha_vantage)
                 (getRealTimeStockData (MarketDataService_new env_alpha_vantage) world_live
                   ''AAPL''))
               world_later ''AAPL''
             = \<lparr> settled = Inr q, written = None, requests = [] \<rparr>)
   \<and> quotes_reachable env_no_keys (MarketDataService_new env_no_keys)
   \<and> commit (MarketDataService_new env_no_keys)
        (getRealTimeStockData (MarketDataService_new env_no_keys) world_unreachable ''AAPL'')
       = MarketDataService_new env_no_keys
   \<and> settled (getRealTimeStockData (MarketDataService_new env_no_keys) world_unreachable
        ''AAPL'') = Inr (generateRealisticMockData ''AAPL'' mid_draws)
   \<and> settled (getRealTimeStockData
        (commit (MarketDataService_new env_no_keys)
          (getRealTimeStockData (MarketDataService_new env_no_keys) world_unreachable ''AAPL''))
        world_later ''AAPL'') = Inr (generateRealisticMockData ''AAPL'' low_draws)
   \<and> q_price (generateRealisticMockData ''AAPL'' mid_draws) = Num 180
   \<and> q_price (generateRealisticMockData ''AAPL'' low_draws) = Num (1746 / 10)"
proof -
  let ?A = "MarketDataService_new env_alpha_vantage"
  let ?N = "MarketDataService_new env_no_keys"
  let ?u = "alphaVantage_quote_url ''AAPL'' (the (mds_alphaVantageKey ?A))"
  have reachA: "quotes_reachable env_alpha_vantage ?A"
    by (rule quotes_init)
  have reachN: "quotes_reachable env_no_keys ?N"
    by (rule quotes_init)
  have missA: "cached_quote ?A (qw_now_check world_live) (quote_key ''AAPL'') = None"
    by (simp add: quote_eval)
  have missN: "cached_quote ?N (qw_now_check w) (quote_key ''AAPL'') = None" for w
    by (simp add: quote_eval)
  have keyA: "truthy (mds_alphaVantageKey ?A)"
    by (simp add: quote_eval)
  have keyN: "\<not> truthy (mds_alphaVantageKey ?N)"
    by (simp add: quote_eval)
  have within: "qw_now_check world_later - qw_now_set world_live < 60000"
    by (simp add: quote_eval)
  have live: "fetchAlphaVantageData (qw_now_parse world_live) (qw_fetch world_live ?u)
              = fetchAlphaVantageData 1200 (Body (Some aapl_quote))"
    by (simp add: world_live_def)
  have draws: "qw_mock world_unreachable = mid_draws" "qw_mock world_later = low_draws"
    by (simp_all add: quote_eval)
  have p1: "q_price (generateRealisticMockData ''AAPL'' mid_draws) = Num 180"
    by (simp add: mock_eval mid_draws_def)
  have p2: "q_price (generateRealisticMockData ''AAPL'' low_draws) = Num (1746 / 10)"
    by (simp add: mock_eval low_draws_def)
  obtain q where q: "fetchAlphaVantageData 1200 (Body (Some aapl_quote)) = Inr q"
    and stamp: "q_timestamp q = 1200"
    using aapl_quote_parsed by simp
  note a = quote_cache_holds_live_only [OF reachA missA, where q = q]
  note n = quote_cache_holds_live_only [OF reachN missN, of world_unreachable]
  from a keyA live q
  have "settled (getRealTimeStockData ?A world_live ''AAPL'') = Inr q
        \<and> (\<forall>w2. qw_now_check w2 - qw_now_set world_live < 60000 \<longrightarrow>
              getRealTimeStockData (commit ?A (getRealTimeStockData ?A world_live ''AAPL''))
                w2 ''AAPL''
              = \<lparr> settled = Inr q, written = None, requests = [] \<rparr>)"
    by simp
  with within stamp
  have first: "\<exists>q. settled (getRealTimeStockData ?A world_live ''AAPL'') = Inr q
          \<and> q_timestamp q = 1200
          \<and> getRealTimeStockData (commit ?A (getRealTimeStockData ?A world_live ''AAPL''))
               world_later ''AAPL''
             = \<lparr> settled = Inr q, written = None, requests = [] \<rparr>"
    by blast
  from n keyN missN draws
  have second: "commit ?N (getRealTimeStockData ?N world_unreachable ''AAPL'') = ?N
     \<and> settled (getRealTimeStockData
          (commit ?N (getRealTimeStockData ?N world_unreachable ''AAPL'')) world_later ''AAPL'')
        = Inr (generateRealisticMockData ''AAPL'' low_draws)"
    by metis
  have third: "settled (getRealTimeStockData ?N world_unreachable ''AAPL'')
               = Inr (generateRealisticMockData ''AAPL'' mid_draws)"
    using quote_miss_no_key [OF missN keyN, of world_unreachable] draws by simp
  from reachA reachN within first second third p1 p2 show ?thesis by blast
qed

subsection \<open>The simulated price\<close>

lemma round2_between:
  assumes "1746 / 10 \<le> x" and "x \<le> 1854 / 10"
  shows "1746 / 10 \<le> round2 x \<and> round2 x \<le> 1854 / 10"
proof -
  have lo: "(17460::int) \<le> \<lfloor>x * 100 + 1 / 2\<rfloor>"
    using assms(1) by (simp add: le_floor_iff)
  have hi: "\<lfloor>x * 100 + 1 / 2\<rfloor> \<le> (18540::int)"
    using assms(2) by (simp add: floor_le_iff)
  from lo have "(17460::real) \<le> real_of_int \<lfloor>x * 100 + 1 / 2\<rfloor>"
    by linarith
  moreover from hi have "real_of_int \<lfloor>x * 100 + 1 / 2\<rfloor> \<le> (18540::real)"
    by linarith
  ultimately show ?thesis
    by (simp add: round2_def math_round_def)
qed

text \<open>
  C6. Without a quote credential, in every state the service can reach, the fetch of
  AAPL returns a simulated quote: \<open>isLive = false\<close>, source \<open>Simulated (Rate Limited)\<close>,
  and for every random draw in [0, 1) its price is \<open>round2 (180 * (1 + v))\<close> for some \<open>v\<close>
  in [-0.03, 0.03], hence between 174.6 and 185.4. (Only the Alpha Vantage credential is
  read by the fetch, so its absence is the hypothesis.)
\<close>

theorem aapl_simulated_price_range:
  assumes "quotes_reachable env svc"
    and "\<not> truthy (REACT_APP_ALPHA_VANTAGE_KEY env)"
    and "0 \<le> r_variation (qw_mock w)" and "r_variation (qw_mock w) < 1"
  shows "\<exists>q v p. settled (getRealTimeStockData svc w ''AAPL'') = Inr q
           \<and> q_isLive q = Some False
           \<and> q_source q = Some ''Simulated (Rate Limited)''
           \<and> - (3 / 100) \<le> v \<and> v \<le> 3 / 100
           \<and> q_price q = Num (round2 (180 * (1 + v)))
           \<and> q_price q = Num p \<and> 1746 / 10 \<le> p \<and> p \<le> 1854 / 10"
proof -
  define v where "v = (r_variation (qw_mock w) - 1 / 2) * (6 / 100)"
  have v: "- (3 / 100) \<le> v" "v \<le> 3 / 100"
    using assms(3,4) by (simp_all add: v_def)
  have key: "\<not> truthy (mds_alphaVantageKey svc)"
    using assms(1,2) reachable_config [of env svc] by simp
  have "mds_cache svc = Map.empty"
    using assms(1,2) by (rule reachable_cache_empty)
  then have miss: "cached_quote svc (qw_now_check w) (quote_key ''AAPL'') = None"
    by (simp add: cached_quote_def)
  have q: "settled (getRealTimeStockData svc w ''AAPL'')
           = Inr (generateRealisticMockData ''AAPL'' (qw_mock w))"
    using miss key by (simp add: quote_miss_no_key)
  have base: "basePrice ''AAPL'' = Num 180"
    by (simp add: basePrice_def basePrices_def)
  have price: "q_price (generateRealisticMockData ''AAPL'' (qw_mock w))
               = Num (round2 (180 * (1 + v)))"
    by (simp add: mock_price base v_def)
  have "1746 / 10 \<le> 180 * (1 + v)" "180 * (1 + v) \<le> 1854 / 10"
    using v by simp_all
  then have range: "1746 / 10 \<le> round2 (180 * (1 + v)) \<and> round2 (180 * (1 + v)) \<le> 1854 / 10"
    by (rule round2_between)
  from q price v range show ?thesis
    by (auto simp: mock_fields)
qed

theorem aapl_simulated_price_range_witness:
  "quotes_reachable env_no_keys (MarketDataService_new env_no_keys)
   \<and> \<not> truthy (REACT_APP_ALPHA_VANTAGE_KEY env_no_keys)
   \<and> 0 \<le> r_variation (qw_mock world_later) \<and> r_variation (qw_mock world_later) < 1
   \<and> (\<exists>q v p. settled (getRealTimeStockData (MarketDataService_new env_no_keys) world_later
                  ''AAPL'') = Inr q
           \<and> q_isLive q = Some False
           \<and> q_source q = Some ''Simulated (Rate Limited)''
           \<and> - (3 / 100) \<le> v \<and> v \<le> 3 / 100
           \<and> q_price q = Num (round2 (180 * (1 + v)))
           \<and> q_price q = Num p \<and> 1746 / 10 \<le> p \<and> p \<le> 1854 / 10)
   \<and> q_price (generateRealisticMockData ''AAPL'' (qw_mock world_later)) = Num (1746 / 10)"
proof -
  have reach: "quotes_reachable env_no_keys (MarketDataService_new env_no_keys)"
    by (rule quotes_init)
  have key: "\<not> truthy (REACT_APP_ALPHA_VANTAGE_KEY env_no_keys)"
    by (simp add: env_no_keys_def)
  have lo: "0 \<le> r_variation (qw_mock world_later)"
    by (simp add: quote_eval)
  have hi: "r_variation (qw_mock world_later) < 1"
    by (simp add: quote_eval)
  have price: "q_price (generateRealisticMockData ''AAPL'' (qw_mock world_later))
               = Num (1746 / 10)"
    by (simp add: mock_eval quote_eval)
  from reach key lo hi price aapl_simulated_price_range [OF reach key lo hi]
  show ?thesis by blast
qed

section \<open>Alerts: union, order and cache\<close>

lemma fetchAlphaVantageNews_total: "\<exists>alerts. fetchAlphaVantageNews response = Inr alerts"
  by (simp add: fetchAlphaVantageNews_def split: sum.splits)

lemma fetchFinnhubNews_total: "\<exists>alerts. fetchFinnhubNews response = Inr alerts"
  by (simp add: fetchFinnhubNews_def split: sum.splits)

subsection \<open>The sort\<close>

lemma length_insert_sorted: "length (insert_sorted c x ys) = Suc (length ys)"
  by (induction ys) simp_all

lemma set_insert_sorted: "set (insert_sorted c x ys) = insert x (set ys)"
  by (induction ys) auto

lemma length_sort_by_time: "length (sort_by_time alerts) = length alerts"
  by (induction alerts) (simp_all add: sort_by_time_def array_sort_def length_insert_sorted)

lemma set_sort_by_time: "set (sort_by_time alerts) = set alerts"
  by (induction alerts) (simp_all add: sort_by_time_def array_sort_def set_insert_sorted)

lemma insert_sorted_timestamps:
  assumes "a_timestamp x = Some t" and "map a_timestamp ys = map Some us"
  shows "map a_timestamp (insert_sorted compare_by_time x ys) = map Some (insort_key uminus t us)"
  using assms(2)
proof (induction ys arbitrary: us)
  case Nil
  then show ?case using assms(1) by simp
next
  case (Cons y ys)
  then obtain u us' where us: "us = u # us'" and y: "a_timestamp y = Some u"
    and rest: "map a_timestamp ys = map Some us'"
    by (cases us) auto
  have cmp: "sort_compare compare_by_time x y = u - t"
    by (simp add: sort_compare_def compare_by_time_def assms(1) y)
  show ?case
    using Cons.IH [OF rest] assms(1) y rest by (simp add: us cmp)
qed

text \<open>On alerts that all carry a valid date the sort orders the instants, latest first.\<close>

lemma sort_by_time_timestamps:
  "map a_timestamp alerts = map Some ts \<Longrightarrow>
   map a_timestamp (sort_by_time alerts) = map Some (sort_key uminus ts)"
proof (induction alerts arbitrary: ts)
  case Nil
  then show ?case by (simp add: sort_by_time_def array_sort_def)
next
  case (Cons a alerts)
  then obtain t ts' where ts: "ts = t # ts'" and a: "a_timestamp a = Some t"
    and rest: "map a_timestamp alerts = map Some ts'"
    by (cases ts) auto
  have "map a_timestamp (sort_by_time alerts) = map Some (sort_key uminus ts')"
    using rest by (rule Cons.IH)
  then have "map a_timestamp (insert_sorted compare_by_time a (sort_by_time alerts))
             = map Some (insort_key uminus t (sort_key uminus ts'))"
    using a by (rule insert_sorted_timestamps [rotated])
  then show ?case
    by (simp add: ts sort_by_time_def array_sort_def)
qed





subsection \<open>One call\<close>

lemma simulated_alert_time:
  "a_timestamp (simulated_alert d i t) = Some (currentTime d - t_minutesAgo t * 60000)"
  by (simp add: simulated_alert_def Let_def)

lemma simulated_alert_origin:
  "a_isLive (simulated_alert d i t) = False"
  "a_source (simulated_alert d i t) = ''Market Simulation''"
  by (simp_all add: simulated_alert_def Let_def)

lemma generated_alert_times:
  "map a_timestamp (generateRealisticMarketAlerts d)
   = map (\<lambda>t. Some (currentTime d - t_minutesAgo t * 60000)) (take 6 (alertTemplates d))"
  by (simp add: generateRealisticMarketAlerts_def alertTemplates_def enumerate_eq_zip
      simulated_alert_time upt_rec)

lemma generated_alerts_simulated:
  "a \<in> set (generateRealisticMarketAlerts d) \<Longrightarrow>
   \<not> a_isLive a \<and> a_source a = ''Market Simulation''"
  by (auto simp: generateRealisticMarketAlerts_def simulated_alert_origin)


text \<open>The body of the \<open>try\<close> completes in every case, so the \<open>catch\<close> is never entered.\<close>

lemma getMarketAlerts_miss_eq:
  "getMarketAlerts_miss svc w =
     (take 10 (sort_by_time
        (if live_union svc w = [] then generateRealisticMarketAlerts (draws w)
         else live_union svc w)),
      svc\<lparr> ns_cache := (ns_cache svc)(''market_alerts'' \<mapsto>
             \<lparr> ace_data = take 10 (sort_by_time
                   (if live_union svc w = [] then generateRealisticMarketAlerts (draws w)
                    else live_union svc w)),
               ace_timestamp = now_set w \<rparr>) \<rparr>)"
proof -
  obtain av where av: "fetchAlphaVantageNews (avNews w) = Inr av"
    using fetchAlphaVantageNews_total by blast
  obtain fh where fh: "fetchFinnhubNews (finnhubNews w) = Inr fh"
    using fetchFinnhubNews_total by blast
  show ?thesis
    unfolding getMarketAlerts_miss_def getMarketAlerts_try_def live_union_def fetched_def
      av fh Let_def
    by (cases "truthy (ns_alphaVantageKey svc)"; cases "truthy (ns_finnhubKey svc)"; simp)
qed

lemma getMarketAlerts_hit:
  "cached_alerts svc (now_check w) ''market_alerts'' = Some data \<Longrightarrow>
   getMarketAlerts svc w = (data, svc)"
  by (simp add: getMarketAlerts_def)

lemma getMarketAlerts_miss:
  "cached_alerts svc (now_check w) ''market_alerts'' = None \<Longrightarrow>
   getMarketAlerts svc w = getMarketAlerts_miss svc w"
  by (simp add: getMarketAlerts_def)

lemma cached_alerts_SomeD:
  "cached_alerts svc now k = Some data \<Longrightarrow>
   \<exists>cached. ns_cache svc k = Some cached \<and> ace_data cached = data"
  by (auto simp: cached_alerts_def split: option.splits if_splits)

subsection \<open>What every reachable service satisfies\<close>

lemma alerts_cache_ok_new: "alerts_cache_ok (NewsService_new env)"
  by (simp add: alerts_cache_ok_def NewsService_new_def)

lemma getMarketAlerts_ok:
  assumes "alerts_cache_ok svc"
  shows "length (fst (getMarketAlerts svc w)) \<le> 10
         \<and> alerts_cache_ok (snd (getMarketAlerts svc w))"
proof (cases "cached_alerts svc (now_check w) ''market_alerts''")
  case (Some data)
  with assms cached_alerts_SomeD [OF Some] show ?thesis
    by (auto simp: getMarketAlerts_hit alerts_cache_ok_def)
next
  case None
  with assms show ?thesis
    by (simp add: getMarketAlerts_miss getMarketAlerts_miss_eq alerts_cache_ok_def)
qed

lemma news_reachable_ok: "news_reachable env svc \<Longrightarrow> alerts_cache_ok svc"
proof (induction rule: news_reachable.induct)
  case news_init
  show ?case by (rule alerts_cache_ok_new)
next
  case (news_step svc w)
  then show ?case using getMarketAlerts_ok by blast
qed



lemmas alerts_eval =
  NewsService_new_def cached_alerts_def env_no_keys_def env_finnhub_def env_alpha_vantage_def
  alerts_world_offline_def alerts_world_later_def alerts_world_finnhub_def
  alerts_world_undated_def sample_draws_def other_draws_def





lemma alerts_miss_empty_union:
  assumes "cached_alerts svc (now_check w) ''market_alerts'' = None"
    and "\<not> truthy (ns_alphaVantageKey svc) \<or> fetchAlphaVantageNews (avNews w) = Inr []"
    and "\<not> truthy (ns_finnhubKey svc) \<or> fetchFinnhubNews (finnhubNews w) = Inr []"
  shows "getMarketAlerts svc w =
     (take 10 (sort_by_time (generateRealisticMarketAlerts (draws w))),
      svc\<lparr> ns_cache := (ns_cache svc)(''market_alerts'' \<mapsto>
             \<lparr> ace_data = take 10 (sort_by_time (generateRealisticMarketAlerts (draws w))),
               ace_timestamp = now_set w \<rparr>) \<rparr>)"
proof -
  have "live_union svc w = []"
    using assms(2,3) by (auto simp: live_union_def fetched_def)
  then show ?thesis
    by (simp add: getMarketAlerts_miss [OF assms(1)] getMarketAlerts_miss_eq)
qed

lemma sample_alert_times:
  "map a_timestamp (generateRealisticMarketAlerts sample_draws)
   = map Some [98380000, 99640000, 96400000, 98680000, 97300000, 94600000]"
  by (simp add: generated_alert_times alertTemplates_def sample_draws_def math_floor_def)

lemma sample_alerts_sorted:
  "map a_timestamp (take 10 (sort_by_time (generateRealisticMarketAlerts sample_draws)))
   = [Some 99640000, Some 98680000, Some 98380000, Some 97300000, Some 96400000, Some 94600000]"
  by (simp add: take_map [symmetric] sort_by_time_timestamps [OF sample_alert_times])

text \<open>
  C10. When the cache misses and the union of the providers' results is empty without an
  exception (no credential, or a provider that yields nothing), the simulated alerts,
  sorted, are what \<open>getMarketAlerts\<close> returns and what it writes to its cache; a second
  call whose clock is less than 300000 ms past the write returns that same list, whatever
  its own random draws are.
\<close>

theorem simulated_alerts_are_cached:
  assumes "news_reachable env svc"
    and "cached_alerts svc (now_check w) ''market_alerts'' = None"
    and "\<not> truthy (ns_alphaVantageKey svc) \<or> fetchAlphaVantageNews (avNews w) = Inr []"
    and "\<not> truthy (ns_finnhubKey svc) \<or> fetchFinnhubNews (finnhubNews w) = Inr []"
  shows "fst (getMarketAlerts svc w)
           = take 10 (sort_by_time (generateRealisticMarketAlerts (draws w)))
         \<and> ns_cache (snd (getMarketAlerts svc w)) ''market_alerts''
             = Some \<lparr> ace_data = fst (getMarketAlerts svc w), ace_timestamp = now_set w \<rparr>
         \<and> (\<forall>w2. now_check w2 - now_set w < 300000 \<longrightarrow>
               fst (getMarketAlerts (snd (getMarketAlerts svc w)) w2) = fst (getMarketAlerts svc w))
         \<and> (\<forall>a \<in> set (fst (getMarketAlerts svc w)).
               \<not> a_isLive a \<and> a_source a = ''Market Simulation'')"
proof -
  let ?sim = "take 10 (sort_by_time (generateRealisticMarketAlerts (draws w)))"
  let ?svc' = "svc\<lparr> ns_cache := (ns_cache svc)(''market_alerts'' \<mapsto>
                  \<lparr> ace_data = ?sim, ace_timestamp = now_set w \<rparr>) \<rparr>"
  have r: "getMarketAlerts svc w = (?sim, ?svc')"
    using assms(2-4) by (rule alerts_miss_empty_union)
  have timeout: "ns_cacheTimeout svc = 300000"
    using news_reachable_ok [OF assms(1)] by (simp add: alerts_cache_ok_def)
  have hit: "fst (getMarketAlerts ?svc' w2) = ?sim" if "now_check w2 - now_set w < 300000" for w2
    using that timeout by (simp add: getMarketAlerts_def cached_alerts_def)
  have sim: "\<not> a_isLive a \<and> a_source a = ''Market Simulation''" if "a \<in> set ?sim" for a
  proof -
    from that have "a \<in> set (sort_by_time (generateRealisticMarketAlerts (draws w)))"
      by (rule in_set_takeD)
    then show ?thesis
      by (simp add: set_sort_by_time generated_alerts_simulated)
  qed
  from r hit sim show ?thesis by simp
qed

theorem simulated_alerts_are_cached_witness:
  "news_reachable env_no_keys (NewsService_new env_no_keys)
   \<and> cached_alerts (NewsService_new env_no_keys) (now_check alerts_world_offline)
        ''market_alerts'' = None
   \<and> \<not> truthy (ns_alphaVantageKey (NewsService_new env_no_keys))
   \<and> \<not> truthy (ns_finnhubKey (NewsService_new env_no_keys))
   \<and> now_check alerts_world_later - now_set alerts_world_offline < 300000
   \<and> fst (getMarketAlerts
            (snd (getMarketAlerts (NewsService_new env_no_keys) alerts_world_offline))
            alerts_world_later)
       = fst (getMarketAlerts (NewsService_new env_no_keys) alerts_world_offline)
   \<and> map a_timestamp (fst (getMarketAlerts (NewsService_new env_no_keys) alerts_world_offline))
       = [Some 99640000, Some 98680000, Some 98380000, Some 97300000, Some 96400000,
          Some 94600000]
   \<and> map a_timestamp (generateRealisticMarketAlerts (draws alerts_world_later))
       = [Some 99640000, Some 99160000, Some 98260000, Some 99400000, Some 98740000,
          Some 97360000]"
proof -
  let ?svc = "NewsService_new env_no_keys"
  have reach: "news_reachable env_no_keys ?svc"
    by (rule news_init)
  have miss: "cached_alerts ?svc (now_check alerts_world_offline) ''market_alerts'' = None"
    by (simp add: alerts_eval)
  have av: "\<not> truthy (ns_alphaVantageKey ?svc)"
    by (simp add: alerts_eval)
  have fh: "\<not> truthy (ns_finnhubKey ?svc)"
    by (simp add: alerts_eval)
  have within: "now_check alerts_world_later - now_set alerts_world_offline < 300000"
    by (simp add: alerts_eval)
  have d: "draws alerts_world_offline = sample_draws"
    by (simp add: alerts_world_offline_def)
  have fresh: "map a_timestamp (generateRealisticMarketAlerts (draws alerts_world_later))
       = [Some 99640000, Some 99160000, Some 98260000, Some 99400000, Some 98740000,
          Some 97360000]"
    by (simp add: generated_alert_times alertTemplates_def alerts_world_later_def
        other_draws_def math_floor_def)
  note fact = simulated_alerts_are_cached [OF reach miss disjI1 [OF av] disjI1 [OF fh]]
  from fact have first:
    "map a_timestamp (fst (getMarketAlerts ?svc alerts_world_offline))
     = [Some 99640000, Some 98680000, Some 98380000, Some 97300000, Some 96400000,
        Some 94600000]"
    by (simp add: d sample_alerts_sorted)
  from fact within have again:
    "fst (getMarketAlerts (snd (getMarketAlerts ?svc alerts_world_offline)) alerts_world_later)
     = fst (getMarketAlerts ?svc alerts_world_offline)"
    by blast
  from reach miss av fh within again first fresh show ?thesis by blast
qed

section \<open>Extraction of the rating and the target price\<close>














subsection \<open>The report\<close>







end
